theory Spec2Isabelle
  imports Main
begin

section \<open>Data model\<close>

text \<open>
  The controller of \<^verbatim>\<open>pkg/mgmt/devicenode/devicenode.go\<close> keeps one DeviceNode
  record in step with the devices found on the node. The types below follow the Go
  declarations the file works on. A Go pointer is an address (\<open>None\<close> is \<^verbatim>\<open>nil\<close>);
  a pointer field \<^verbatim>\<open>*bool\<close> that is only compared and copied is a \<open>bool option\<close>.
\<close>

type_synonym addr = nat

text \<open>\<^verbatim>\<open>metav1.OwnerReference\<close>; \<^verbatim>\<open>UID\<close> is a string type in Go.\<close>

record OwnerReference =
  APIVersion :: string
  Kind :: string
  Name :: string
  UID :: string
  Controller :: "bool option"
  BlockOwnerDeletion :: "bool option"

text \<open>
  \<^verbatim>\<open>apis.DeviceNode\<close> with the fields of its embedded \<^verbatim>\<open>ObjectMeta\<close> that matter here
  promoted, as Go promotes them (\<^verbatim>\<open>node.OwnerReferences\<close>, \<^verbatim>\<open>node.Namespace\<close>).
  The element type of \<^verbatim>\<open>Devices\<close> is declared outside this file and is a type
  parameter \<open>'d\<close>. The owner references are a parameter \<open>'r\<close> too: inside the heap
  the field is a slice (the address of a backing array), in a record handed to the store
  or to an event handler it is the list of the elements. The other fields of
  \<^verbatim>\<open>ObjectMeta\<close> and \<^verbatim>\<open>TypeMeta\<close> are neither read nor written by the file and are
  left out.
\<close>

record ('r, 'd) DeviceNode =
  Namespace :: string
  Name :: string
  ResourceVersion :: string
  CreationTimestamp :: string
  OwnerReferences :: 'r
  Devices :: "'d list"

type_synonym slice = "addr option"
type_synonym 'd DeviceNode_obj = "(slice, 'd) DeviceNode"
type_synonym 'd DeviceNode_val = "(OwnerReference list, 'd) DeviceNode"

text \<open>
  The heap: DeviceNode structs and the backing arrays of \<^verbatim>\<open>[]OwnerReference\<close> slices,
  each reached by address; \<open>brk\<close> is the next address never handed out. A slice is the
  address of its backing array, which holds exactly the elements of the slice, and
  \<open>None\<close> is the nil slice. The \<^verbatim>\<open>Devices\<close> slice is only ever replaced as a whole in
  this file, never written through, so it stays a list inside the struct.
\<close>

record 'd heap =
  nodes :: "addr \<Rightarrow> 'd DeviceNode_obj"
  arrays :: "addr \<Rightarrow> OwnerReference list"
  brk :: addr

definition elems :: "'d heap \<Rightarrow> slice \<Rightarrow> OwnerReference list" where
  "elems h s = (case s of None \<Rightarrow> [] | Some a \<Rightarrow> arrays h a)"

text \<open>\<^verbatim>\<open>s[idx] = v\<close>: a write through the slice into its backing array.\<close>

definition set_elem :: "'d heap \<Rightarrow> slice \<Rightarrow> nat \<Rightarrow> OwnerReference \<Rightarrow> 'd heap" where
  "set_elem h s idx v =
     (case s of None \<Rightarrow> h
      | Some a \<Rightarrow> h\<lparr>arrays := (arrays h)(a := (arrays h a)[idx := v])\<rparr>)"

text \<open>
  \<^verbatim>\<open>append(s, v)\<close>: the backing array of \<open>s\<close> is full (it holds exactly the
  elements of \<open>s\<close>), so append allocates a new array with the old elements followed by \<open>v\<close>.
\<close>

definition append_slice :: "'d heap \<Rightarrow> slice \<Rightarrow> OwnerReference \<Rightarrow> slice \<times> 'd heap" where
  "append_slice h s v =
     (Some (brk h), h\<lparr>arrays := (arrays h)(brk h := elems h s @ [v]), brk := Suc (brk h)\<rparr>)"

text \<open>The record a pointer refers to, with the owner references read through the slice.\<close>

definition snapshot :: "'d heap \<Rightarrow> addr \<Rightarrow> 'd DeviceNode_val" where
  "snapshot h p =
     \<lparr>Namespace = Namespace (nodes h p), Name = Name (nodes h p),
      ResourceVersion = ResourceVersion (nodes h p),
      CreationTimestamp = CreationTimestamp (nodes h p),
      OwnerReferences = elems h (OwnerReferences (nodes h p)),
      Devices = Devices (nodes h p)\<rparr>"

text \<open>
  Errors. \<open>NotFound\<close> is a status error whose reason is NotFound, \<open>Failure\<close> any other
  error of a collaborator, \<open>Errorf\<close> an error built by \<^verbatim>\<open>fmt.Errorf\<close>: its format
  string and the errors among its arguments.
\<close>

datatype error = NotFound | Failure string | Errorf string "error list"

fun IsNotFound :: "error \<Rightarrow> bool" where
  "IsNotFound NotFound = True"
| "IsNotFound _ = False"

text \<open>The controller: the required owner reference and the node lister's answer.\<close>

datatype item = Str string | NonString nat

record NodeController =
  ownerRef :: OwnerReference
  NodeLister_Get :: "string \<Rightarrow> string \<Rightarrow> addr option \<times> error option"
  workqueue_Get :: "item \<times> bool"

section \<open>Owner-reference repair\<close>

text \<open>
  The loop of \<^verbatim>\<open>isOwnerRefsUpdateRequired\<close> from index \<open>idx\<close> on: an entry with
  another UID is skipped; at the first entry with the required UID the function returns,
  after writing the required controller flag into that entry if it differs; when the
  loop runs out, the required owner reference is appended.
\<close>

function isOwnerRefsUpdateRequired_from ::
  "NodeController \<Rightarrow> slice \<Rightarrow> nat \<Rightarrow> 'd heap \<Rightarrow> (slice \<times> bool) \<times> 'd heap" where
  "isOwnerRefsUpdateRequired_from c ownerRefs idx h =
     (if idx < length (elems h ownerRefs) then
        (if UID (elems h ownerRefs ! idx) \<noteq> UID (ownerRef c)
         then isOwnerRefsUpdateRequired_from c ownerRefs (Suc idx) h
         else if Controller (elems h ownerRefs ! idx) \<noteq> Controller (ownerRef c)
         then ((ownerRefs, True),
               set_elem h ownerRefs idx
                 ((elems h ownerRefs ! idx)\<lparr>Controller := Controller (ownerRef c)\<rparr>))
         else ((ownerRefs, False), h))
      else (case append_slice h ownerRefs (ownerRef c) of
              (ownerRefs', h') \<Rightarrow> ((ownerRefs', True), h')))"
  by pat_completeness auto
termination
  by (relation "measure (\<lambda>(c, ownerRefs, idx, h). length (elems h ownerRefs) - idx)") auto

definition isOwnerRefsUpdateRequired ::
  "NodeController \<Rightarrow> slice \<Rightarrow> 'd heap \<Rightarrow> (slice \<times> bool) \<times> 'd heap" where
  "isOwnerRefsUpdateRequired c ownerRefs h = isOwnerRefsUpdateRequired_from c ownerRefs 0 h"

section \<open>Collaborators and effects\<close>

text \<open>
  Everything the controller does to the outside is recorded as an event, in the order of
  the calls: log lines (the format string only), errors handed to
  \<^verbatim>\<open>runtime.HandleError\<close>, the create and update calls of the store client with the
  namespace and the record submitted, and the calls on the work queue.
\<close>

datatype 'd event =
    klog_Infof string
  | klog_Warningf string
  | runtime_HandleError error
  | Kubeclient_Create string "'d DeviceNode_val"
  | Kubeclient_Update string "'d DeviceNode_val"
  | workqueue_Add item
  | workqueue_AddRateLimited item
  | workqueue_Forget item
  | workqueue_Done item

fun isStoreWrite :: "'d event \<Rightarrow> bool" where
  "isStoreWrite (Kubeclient_Create _ _) = True"
| "isStoreWrite (Kubeclient_Update _ _) = True"
| "isStoreWrite _ = False"

fun isQueueCall :: "'d event \<Rightarrow> bool" where
  "isQueueCall (workqueue_Add _) = True"
| "isQueueCall (workqueue_AddRateLimited _) = True"
| "isQueueCall (workqueue_Forget _) = True"
| "isQueueCall (workqueue_Done _) = True"
| "isQueueCall _ = False"

text \<open>
  The packages the file imports are not among the sources, so they are parameters: what
  each call answers is given, and the theorems hold for every answer.
  \<^item> \<^verbatim>\<open>cache.SplitMetaNamespaceKey\<close>, \<^verbatim>\<open>cache.MetaNamespaceKeyFunc\<close> (client-go);
  \<^item> \<^verbatim>\<open>device.GetDiskDetails\<close>, \<^verbatim>\<open>device.DeviceNamespace\<close>, \<^verbatim>\<open>device.NodeID\<close>;
  \<^item> \<^verbatim>\<open>equality.Semantic.DeepEqual\<close> at the type of the device lists;
  \<^item> the \<^verbatim>\<open>nodebuilder\<close> chain
    \<^verbatim>\<open>NewBuilder().WithNamespace(ns).WithName(n).WithDevices(ds).WithOwnerReferences(o).Build()\<close>;
  \<^item> \<^verbatim>\<open>nodebuilder.NewKubeclient().WithNamespace(ns).Create(node)\<close> and \<^verbatim>\<open>.Update(node)\<close>.
\<close>

record 'd env =
  SplitMetaNamespaceKey :: "string \<Rightarrow> error + string \<times> string"
  MetaNamespaceKeyFunc :: "'d DeviceNode_val \<Rightarrow> error + string"
  GetDiskDetails :: "error + 'd list"
  DeviceNamespace :: string
  NodeID :: string
  DeepEqual :: "'d list \<Rightarrow> 'd list \<Rightarrow> bool"
  Build :: "string \<Rightarrow> string \<Rightarrow> 'd list \<Rightarrow> OwnerReference \<Rightarrow> error + 'd DeviceNode_val"
  Create :: "string \<Rightarrow> 'd DeviceNode_val \<Rightarrow> error + 'd DeviceNode_val"
  Update :: "string \<Rightarrow> 'd DeviceNode_val \<Rightarrow> error + 'd DeviceNode_val"

definition listDeviceNames :: "'d env \<Rightarrow> error + 'd list" where
  "listDeviceNames E = GetDiskDetails E"

text \<open>
  Modelled from the spec: the generated \<^verbatim>\<open>DeepCopy\<close> method of \<^verbatim>\<open>apis.DeviceNode\<close> is
  not among the sources. The spec says that the local working copy is always a deep copy
  of the cached version: a new struct with the same field values whose owner references
  live in a new backing array with the same elements (a nil slice stays nil).
\<close>

definition DeepCopy :: "addr \<Rightarrow> 'd heap \<Rightarrow> addr \<times> 'd heap" where
  "DeepCopy p h =
     (case (case OwnerReferences (nodes h p) of
              None \<Rightarrow> (None, h)
            | Some a \<Rightarrow> (Some (brk h),
                         h\<lparr>arrays := (arrays h)(brk h := arrays h a), brk := Suc (brk h)\<rparr>)) of
        (refs, h1) \<Rightarrow>
          (brk h1, h1\<lparr>nodes := (nodes h1)(brk h1 := (nodes h p)\<lparr>OwnerReferences := refs\<rparr>),
                      brk := Suc (brk h1)\<rparr>))"

text \<open>Assignments to a field of the struct a pointer refers to.\<close>

definition set_OwnerReferences :: "'d heap \<Rightarrow> addr \<Rightarrow> slice \<Rightarrow> 'd heap" where
  "set_OwnerReferences h q s = h\<lparr>nodes := (nodes h)(q := (nodes h q)\<lparr>OwnerReferences := s\<rparr>)\<rparr>"

definition set_Devices :: "'d heap \<Rightarrow> addr \<Rightarrow> 'd list \<Rightarrow> 'd heap" where
  "set_Devices h q ds = h\<lparr>nodes := (nodes h)(q := (nodes h q)\<lparr>Devices := ds\<rparr>)\<rparr>"

section \<open>The reconciler\<close>

text \<open>
  \<^verbatim>\<open>syncNode\<close>. The result is the error returned (\<open>None\<close> is \<^verbatim>\<open>nil\<close>), the events of
  the pass in order, and the heap after it. The working copy lives in the heap, since the
  pass writes to it; the record the builder returns is handed to the create call as it
  is and stays a value.
\<close>

definition syncNode ::
  "'d env \<Rightarrow> NodeController \<Rightarrow> string \<Rightarrow> string \<Rightarrow> 'd heap \<Rightarrow>
     error option \<times> 'd event list \<times> 'd heap" where
  "syncNode E c namespace name h =
     (case NodeLister_Get c namespace name of (cachedNode, err) \<Rightarrow>
      if (case err of None \<Rightarrow> False | Some e \<Rightarrow> \<not> IsNotFound e) then (err, [], h)
      else
        (case (case cachedNode of
                 None \<Rightarrow> (None, h)
               | Some p \<Rightarrow> (case DeepCopy p h of (q, h1) \<Rightarrow> (Some q, h1))) of
           (node, h1) \<Rightarrow>
        (case listDeviceNames E of
           Inl err \<Rightarrow> (Some err, [], h1)
         | Inr devices \<Rightarrow>
        (case node of
           None \<Rightarrow>
             (case Build E namespace name devices (ownerRef c) of
                Inl err \<Rightarrow> (Some err, [klog_Infof ''Devices List %+v''], h1)
              | Inr node \<Rightarrow>
                 (case Create E namespace node of
                    Inl err \<Rightarrow>
                      (Some (Errorf ''create device node %s/%s: %v'' [err]),
                       [klog_Infof ''Devices List %+v'',
                        klog_Infof ''device node controller: creating new node object for %+v'',
                        Kubeclient_Create namespace node], h1)
                  | Inr _ \<Rightarrow>
                      (None,
                       [klog_Infof ''Devices List %+v'',
                        klog_Infof ''device node controller: creating new node object for %+v'',
                        Kubeclient_Create namespace node,
                        klog_Infof ''device node controller: created node object %s/%s''], h1)))
         | Some q \<Rightarrow>
             (case isOwnerRefsUpdateRequired c (OwnerReferences (nodes h1 q)) h1 of
                ((ownerRefs, req), h2) \<Rightarrow>
              let (ev1, h3) =
                    (if req
                     then ([klog_Infof ''device node controller: node owner references updated current=%+v, required=%+v''],
                           set_OwnerReferences h2 q ownerRefs)
                     else ([], h2));
                  differ = (\<not> DeepEqual E (Devices (nodes h3 q)) devices);
                  (ev2, h4) =
                    (if differ
                     then ([klog_Infof ''device node controller: node devices updated current=%+v, required=%+v''],
                           set_Devices h3 q devices)
                     else ([], h3));
                  updateRequired = (req \<or> differ);
                  evs = [klog_Infof ''Devices List %+v''] @ ev1 @ ev2
              in if \<not> updateRequired then (None, evs, h4)
                 else
                   (case Update E namespace (snapshot h4 q) of
                      Inl err \<Rightarrow>
                        (Some (Errorf ''update device node %s/%s: %v'' [err]),
                         evs @ [klog_Infof ''device node controller: updating node object with %+v'',
                                Kubeclient_Update namespace (snapshot h4 q)], h4)
                    | Inr _ \<Rightarrow>
                        (None,
                         evs @ [klog_Infof ''device node controller: updating node object with %+v'',
                                Kubeclient_Update namespace (snapshot h4 q),
                                klog_Infof ''device node controller: updated node object %s/%s''],
                         h4)))))))"

definition syncHandler ::
  "'d env \<Rightarrow> NodeController \<Rightarrow> string \<Rightarrow> 'd heap \<Rightarrow> error option \<times> 'd event list \<times> 'd heap" where
  "syncHandler E c key h =
     (case SplitMetaNamespaceKey E key of
        Inl err \<Rightarrow> (None, [runtime_HandleError (Errorf ''invalid resource key: %s'' [])], h)
      | Inr (namespace, name) \<Rightarrow> syncNode E c namespace name h)"

section \<open>Event handlers\<close>

text \<open>
  The payload of a notification is an \<^verbatim>\<open>interface{}\<close>: a pointer to a DeviceNode (the
  handlers only read it, so the record itself stands for it), the tombstone
  \<^verbatim>\<open>cache.DeletedFinalStateUnknown{Key, Obj}\<close>, or a value of any other type.
\<close>

datatype 'n obj = DeviceNodeObj 'n | DeletedFinalStateUnknown string "'n obj" | OtherObj nat

definition enqueueNode :: "'d env \<Rightarrow> 'd DeviceNode_val \<Rightarrow> 'd event list" where
  "enqueueNode E node =
     (if Namespace node \<noteq> DeviceNamespace E \<or> Name node \<noteq> NodeID E
      then [klog_Warningf ''skipping device node object %s/%s'']
      else (case MetaNamespaceKeyFunc E node of
              Inl err \<Rightarrow> [runtime_HandleError err]
            | Inr key \<Rightarrow> [workqueue_Add (Str key)]))"

definition addNode :: "'d env \<Rightarrow> 'd DeviceNode_val obj \<Rightarrow> 'd event list" where
  "addNode E obj =
     (case obj of
        DeviceNodeObj node \<Rightarrow>
          klog_Infof ''Got add event for device node %s/%s'' # enqueueNode E node
      | _ \<Rightarrow> [runtime_HandleError (Errorf ''Couldn't get node object %#v'' [])])"

definition updateNode :: "'d env \<Rightarrow> 'd DeviceNode_val obj \<Rightarrow> 'd DeviceNode_val obj \<Rightarrow> 'd event list" where
  "updateNode E oldObj newObj =
     (case newObj of
        DeviceNodeObj newNode \<Rightarrow>
          klog_Infof ''Got update event for device node %s/%s'' # enqueueNode E newNode
      | _ \<Rightarrow> [runtime_HandleError (Errorf ''Couldn't get node object %#v'' [])])"

definition deleteNode :: "'d env \<Rightarrow> 'd DeviceNode_val obj \<Rightarrow> 'd event list" where
  "deleteNode E obj =
     (case (case obj of
              DeviceNodeObj node \<Rightarrow> Inr node
            | DeletedFinalStateUnknown k tombstoneObj \<Rightarrow>
                (case tombstoneObj of
                   DeviceNodeObj node \<Rightarrow> Inr node
                 | _ \<Rightarrow> Inl [runtime_HandleError
                             (Errorf ''Tombstone contained object that is not a DeviceNode %#v'' [])])
            | _ \<Rightarrow> Inl [runtime_HandleError (Errorf ''Couldn't get object from tombstone %#v'' [])]) of
        Inl evs \<Rightarrow> evs
      | Inr node \<Rightarrow> klog_Infof ''Got delete event for node %s/%s'' # enqueueNode E node)"

section \<open>The worker\<close>

text \<open>
  \<^verbatim>\<open>processNextWorkItem\<close>. The deferred \<^verbatim>\<open>c.workqueue.Done(obj)\<close> runs when the inner
  function returns, so its event is the last one of the inner function on every path;
  the outer function then reports the error, if any, and returns true.
  \<^verbatim>\<open>workqueue_Get\<close> of the controller is what \<^verbatim>\<open>c.workqueue.Get()\<close> answers.
  \<^verbatim>\<open>Run\<close> and \<^verbatim>\<open>runWorker\<close> start and repeat what is modelled here, with goroutines
  and a timer, and are left out.
\<close>

definition processNextWorkItem ::
  "'d env \<Rightarrow> NodeController \<Rightarrow> 'd heap \<Rightarrow> bool \<times> 'd event list \<times> 'd heap" where
  "processNextWorkItem E c h =
     (case workqueue_Get c of (obj, shutdown) \<Rightarrow>
      if shutdown then (False, [], h)
      else
        (case (case obj of
                 NonString v \<Rightarrow>
                   (None,
                    [workqueue_Forget obj,
                     runtime_HandleError (Errorf ''expected string in workqueue but got %#v'' []),
                     workqueue_Done obj], h)
               | Str key \<Rightarrow>
                   (case syncHandler E c key h of
                      (Some err, evs, h') \<Rightarrow>
                        (Some (Errorf ''error syncing '%s': %s, requeuing'' [err]),
                         evs @ [workqueue_AddRateLimited (Str key), workqueue_Done obj], h')
                    | (None, evs, h') \<Rightarrow>
                        (None,
                         evs @ [workqueue_Forget obj, klog_Infof (''Successfully synced '%s'' @ [CHR 0x27]),
                                workqueue_Done obj], h'))) of
           (err, evs, h') \<Rightarrow>
             (case err of
                Some e \<Rightarrow> (True, evs @ [runtime_HandleError e], h')
              | None \<Rightarrow> (True, evs, h'))))"

section \<open>Collaborators as the spec describes them\<close>

text \<open>
  Modelled from the spec: \<^verbatim>\<open>equality.Semantic.DeepEqual\<close> (package \<^verbatim>\<open>pkg/equality\<close>)
  is not among the sources. The spec has the reconciler compare the copy's device set to
  the current device list using full structural equality, order-insensitive for the
  purpose of comparison: two device lists are equal when they hold the same devices,
  whatever the order.
\<close>

definition Semantic_DeepEqual :: "'d list \<Rightarrow> 'd list \<Rightarrow> bool" where
  "Semantic_DeepEqual xs ys = (set xs = set ys)"

text \<open>
  Modelled from the spec: the builder of \<^verbatim>\<open>pkg/builder/nodebuilder\<close> is not among the
  sources. The spec has the reconciler construct a new record with the configured
  namespace and name, the current device list, and the required owner reference; it
  names no way for the construction to fail. The fields the spec does not mention are
  left at their zero values.
\<close>

definition nodebuilder_Build ::
  "string \<Rightarrow> string \<Rightarrow> 'd list \<Rightarrow> OwnerReference \<Rightarrow> error + 'd DeviceNode_val" where
  "nodebuilder_Build namespace name devices owner =
     Inr \<lparr>Namespace = namespace, Name = name, ResourceVersion = [], CreationTimestamp = [],
          OwnerReferences = [owner], Devices = devices\<rparr>"

section \<open>A concrete node\<close>

text \<open>
  One node, \<^verbatim>\<open>openebs/node1\<close>, with devices named by strings, on which the theorems
  below are run. \<open>example_env\<close> answers as client-go's key functions do
  (\<^verbatim>\<open>namespace/name\<close> keys, split at the slashes), compares device lists as lists, and
  has a store client that accepts every write and a builder that refuses every record.
\<close>

fun split_slash :: "string \<Rightarrow> string list" where
  "split_slash [] = [[]]"
| "split_slash (ch # s) =
     (if ch = CHR ''/'' then [] # split_slash s
      else (case split_slash s of [] \<Rightarrow> [[ch]] | part # parts \<Rightarrow> (ch # part) # parts))"

definition example_SplitMetaNamespaceKey :: "string \<Rightarrow> error + string \<times> string" where
  "example_SplitMetaNamespaceKey key =
     (case split_slash key of
        [name] \<Rightarrow> Inr ([], name)
      | [namespace, name] \<Rightarrow> Inr (namespace, name)
      | _ \<Rightarrow> Inl (Errorf ''unexpected key format: %q'' []))"

definition example_MetaNamespaceKeyFunc :: "'d DeviceNode_val \<Rightarrow> error + string" where
  "example_MetaNamespaceKeyFunc node =
     Inr (if Namespace node \<noteq> [] then Namespace node @ ''/'' @ Name node else Name node)"

definition example_env :: "error + string list \<Rightarrow> string env" where
  "example_env disks =
     \<lparr>SplitMetaNamespaceKey = example_SplitMetaNamespaceKey,
      MetaNamespaceKeyFunc = example_MetaNamespaceKeyFunc,
      GetDiskDetails = disks,
      DeviceNamespace = ''openebs'',
      NodeID = ''node1'',
      DeepEqual = (\<lambda>xs ys. xs = ys),
      Build = (\<lambda>namespace name devices owner. Inl (Failure ''missing field'')),
      Create = (\<lambda>namespace node. Inr node),
      Update = (\<lambda>namespace node. Inr node)\<rparr>"

definition example_owner :: "string \<Rightarrow> bool option \<Rightarrow> OwnerReference" where
  "example_owner uid flag =
     \<lparr>APIVersion = ''apps/v1'', Kind = ''DaemonSet'', OwnerReference.Name = ''openebs-device-node'',
      UID = uid, Controller = flag, BlockOwnerDeletion = None\<rparr>"

definition example_controller :: "item \<times> bool \<Rightarrow> NodeController" where
  "example_controller got =
     \<lparr>ownerRef = example_owner ''uid-7'' (Some True),
      NodeLister_Get = (\<lambda>namespace name.
         if namespace = ''openebs'' \<and> name = ''node1'' then (Some 0, None)
         else (None, Some NotFound)),
      workqueue_Get = got\<rparr>"

text \<open>
  The heap of the example: the cached record of \<^verbatim>\<open>openebs/node1\<close> at address 0, with its
  owner references in the array at address 1.
\<close>

definition example_node :: "'r \<Rightarrow> string list \<Rightarrow> ('r, string) DeviceNode" where
  "example_node refs devs =
     \<lparr>Namespace = ''openebs'', Name = ''node1'', ResourceVersion = ''41'',
      CreationTimestamp = ''2021-06-01T10:00:00Z'', OwnerReferences = refs, Devices = devs\<rparr>"

definition example_heap :: "OwnerReference list \<Rightarrow> string list \<Rightarrow> string heap" where
  "example_heap refs devs =
     \<lparr>nodes = (\<lambda>a. example_node None [])(0 := example_node (Some 1) devs),
      arrays = (\<lambda>a. [])(1 := refs),
      brk = 2\<rparr>"

section \<open>Lemmas on the owner-reference loop and the heap\<close>

lemma from_skip:
  "idx \<le> i \<Longrightarrow> i \<le> length (elems h s) \<Longrightarrow>
   (\<And>j. idx \<le> j \<Longrightarrow> j < i \<Longrightarrow> UID (elems h s ! j) \<noteq> UID (ownerRef c)) \<Longrightarrow>
   isOwnerRefsUpdateRequired_from c s idx h = isOwnerRefsUpdateRequired_from c s i h"
proof (induction idx rule: inc_induct)
  case base
  show ?case by simp
next
  case (step n)
  have "n < length (elems h s)" using step.hyps step.prems(1) by simp
  moreover have "UID (elems h s ! n) \<noteq> UID (ownerRef c)" using step.prems(2)[of n] step.hyps by simp
  ultimately have "isOwnerRefsUpdateRequired_from c s n h = isOwnerRefsUpdateRequired_from c s (Suc n) h"
    by (subst isOwnerRefsUpdateRequired_from.simps) simp
  also have "\<dots> = isOwnerRefsUpdateRequired_from c s i h"
    using step.IH step.prems by simp
  finally show ?case .
qed

lemma elems_set_elem:
  "elems (set_elem h s i v) s = (elems h s)[i := v]"
  by (cases s) (simp_all add: elems_def set_elem_def)

lemma isOwnerRefsUpdateRequired_found:
  assumes "i < length (elems h s)" "UID (elems h s ! i) = UID (ownerRef c)"
    "\<forall>j<i. UID (elems h s ! j) \<noteq> UID (ownerRef c)"
  shows "isOwnerRefsUpdateRequired c s h =
      (if Controller (elems h s ! i) \<noteq> Controller (ownerRef c)
       then ((s, True),
             set_elem h s i ((elems h s ! i)\<lparr>Controller := Controller (ownerRef c)\<rparr>))
       else ((s, False), h))"
proof -
  have "isOwnerRefsUpdateRequired c s h = isOwnerRefsUpdateRequired_from c s i h"
    unfolding isOwnerRefsUpdateRequired_def using assms by (intro from_skip) auto
  also have "\<dots> = (if Controller (elems h s ! i) \<noteq> Controller (ownerRef c)
       then ((s, True),
             set_elem h s i ((elems h s ! i)\<lparr>Controller := Controller (ownerRef c)\<rparr>))
       else ((s, False), h))"
    using assms by (subst isOwnerRefsUpdateRequired_from.simps) simp
  finally show ?thesis .
qed

lemma isOwnerRefsUpdateRequired_absent:
  assumes "\<forall>r \<in> set (elems h s). UID r \<noteq> UID (ownerRef c)"
  shows "isOwnerRefsUpdateRequired c s h =
      ((Some (brk h), True),
       h\<lparr>arrays := (arrays h)(brk h := elems h s @ [ownerRef c]), brk := Suc (brk h)\<rparr>)"
proof -
  have "isOwnerRefsUpdateRequired c s h =
        isOwnerRefsUpdateRequired_from c s (length (elems h s)) h"
    unfolding isOwnerRefsUpdateRequired_def using assms by (intro from_skip) auto
  also have "\<dots> = ((Some (brk h), True),
       h\<lparr>arrays := (arrays h)(brk h := elems h s @ [ownerRef c]), brk := Suc (brk h)\<rparr>)"
    by (subst isOwnerRefsUpdateRequired_from.simps) (simp add: append_slice_def)
  finally show ?thesis .
qed

lemma first_match_index:
  assumes "\<exists>r \<in> set xs. P r"
  obtains i where "i < length xs" "P (xs ! i)" "\<forall>j<i. \<not> P (xs ! j)"
proof -
  from assms obtain k where k: "k < length xs" "P (xs ! k)"
    by (auto simp: in_set_conv_nth)
  define i where "i = (LEAST j. j < length xs \<and> P (xs ! j))"
  have "i < length xs \<and> P (xs ! i)"
    unfolding i_def using k by (intro LeastI[of "\<lambda>j. j < length xs \<and> P (xs ! j)" k]) simp
  moreover have "\<not> P (xs ! j)" if "j < i" for j
  proof
    assume "P (xs ! j)"
    moreover have "j < length xs" using that \<open>i < length xs \<and> P (xs ! i)\<close> by simp
    ultimately have "i \<le> j" unfolding i_def by (intro Least_le) simp
    with that show False by simp
  qed
  ultimately show ?thesis using that by blast
qed

lemma isOwnerRefsUpdateRequired_frame:
  assumes "isOwnerRefsUpdateRequired c s h = ((s', u), h')"
  shows "nodes h' = nodes h \<and> brk h \<le> brk h' \<and>
         (\<forall>a. Some a \<noteq> s \<longrightarrow> a \<noteq> brk h \<longrightarrow> arrays h' a = arrays h a) \<and>
         (u \<or> (h' = h \<and> s' = s))"
proof (cases "\<exists>r \<in> set (elems h s). UID r = UID (ownerRef c)")
  case True
  then obtain i where i: "i < length (elems h s)" "UID (elems h s ! i) = UID (ownerRef c)"
      "\<forall>j<i. UID (elems h s ! j) \<noteq> UID (ownerRef c)"
    by (rule first_match_index[where P = "\<lambda>r. UID r = UID (ownerRef c)"]) blast
  show ?thesis
    using isOwnerRefsUpdateRequired_found[OF i] assms
    by (auto simp: set_elem_def split: if_splits option.splits)
next
  case False
  then have "\<forall>r \<in> set (elems h s). UID r \<noteq> UID (ownerRef c)" by blast
  from isOwnerRefsUpdateRequired_absent[OF this] assms show ?thesis by auto
qed

lemma DeepCopy_elems:
  "DeepCopy p h = (q, h1) \<Longrightarrow>
   elems h1 (OwnerReferences (nodes h1 q)) = elems h (OwnerReferences (nodes h p))"
  by (auto simp: DeepCopy_def elems_def split: option.splits)

lemma DeepCopy_fields:
  "DeepCopy p h = (q, h1) \<Longrightarrow>
   Namespace (nodes h1 q) = Namespace (nodes h p) \<and> Name (nodes h1 q) = Name (nodes h p) \<and>
   ResourceVersion (nodes h1 q) = ResourceVersion (nodes h p) \<and>
   CreationTimestamp (nodes h1 q) = CreationTimestamp (nodes h p) \<and>
   Devices (nodes h1 q) = Devices (nodes h p)"
  by (auto simp: DeepCopy_def split: option.splits)

lemma DeepCopy_fresh:
  "DeepCopy p h = (q, h1) \<Longrightarrow>
   brk h \<le> q \<and> q < brk h1 \<and>
   (\<forall>a<brk h. nodes h1 a = nodes h a \<and> arrays h1 a = arrays h a) \<and>
   (\<forall>a. OwnerReferences (nodes h1 q) = Some a \<longrightarrow> brk h \<le> a \<and> a < brk h1)"
  by (auto simp: DeepCopy_def split: option.splits)

section \<open>The paths of a reconciliation pass\<close>

lemma syncNode_lookup_error:
  "NodeLister_Get c namespace name = (cachedNode, Some e) \<Longrightarrow> \<not> IsNotFound e \<Longrightarrow>
   syncNode E c namespace name h = (Some e, [], h)"
  by (simp add: syncNode_def)

lemma syncNode_absent:
  "NodeLister_Get c namespace name = (None, err) \<Longrightarrow>
   (case err of None \<Rightarrow> True | Some e \<Rightarrow> IsNotFound e) \<Longrightarrow>
   syncNode E c namespace name h =
     (case listDeviceNames E of
        Inl err \<Rightarrow> (Some err, [], h)
      | Inr devices \<Rightarrow>
          (case Build E namespace name devices (ownerRef c) of
             Inl err \<Rightarrow> (Some err, [klog_Infof ''Devices List %+v''], h)
           | Inr node \<Rightarrow>
              (case Create E namespace node of
                 Inl err \<Rightarrow>
                   (Some (Errorf ''create device node %s/%s: %v'' [err]),
                    [klog_Infof ''Devices List %+v'',
                     klog_Infof ''device node controller: creating new node object for %+v'',
                     Kubeclient_Create namespace node], h)
               | Inr _ \<Rightarrow>
                   (None,
                    [klog_Infof ''Devices List %+v'',
                     klog_Infof ''device node controller: creating new node object for %+v'',
                     Kubeclient_Create namespace node,
                     klog_Infof ''device node controller: created node object %s/%s''], h))))"
  by (cases err) (simp_all add: syncNode_def split: sum.splits)

lemma syncNode_present_provider_error:
  "NodeLister_Get c namespace name = (Some p, err) \<Longrightarrow>
   (case err of None \<Rightarrow> True | Some e \<Rightarrow> IsNotFound e) \<Longrightarrow>
   listDeviceNames E = Inl e \<Longrightarrow>
   syncNode E c namespace name h = (Some e, [], snd (DeepCopy p h))"
  by (cases err) (simp_all add: syncNode_def split: prod.splits)

lemma syncNode_present:
  "NodeLister_Get c namespace name = (Some p, err) \<Longrightarrow>
   (case err of None \<Rightarrow> True | Some e \<Rightarrow> IsNotFound e) \<Longrightarrow>
   listDeviceNames E = Inr devices \<Longrightarrow>
   DeepCopy p h = (q, h1) \<Longrightarrow>
   isOwnerRefsUpdateRequired c (OwnerReferences (nodes h1 q)) h1 = ((ownerRefs, req), h2) \<Longrightarrow>
   h3 = (if req then set_OwnerReferences h2 q ownerRefs else h2) \<Longrightarrow>
   differ = (\<not> DeepEqual E (Devices (nodes h3 q)) devices) \<Longrightarrow>
   h4 = (if differ then set_Devices h3 q devices else h3) \<Longrightarrow>
   evs = klog_Infof ''Devices List %+v'' #
         (if req then [klog_Infof ''device node controller: node owner references updated current=%+v, required=%+v''] else []) @
         (if differ then [klog_Infof ''device node controller: node devices updated current=%+v, required=%+v''] else []) \<Longrightarrow>
   syncNode E c namespace name h =
     (if \<not> (req \<or> differ) then (None, evs, h4)
      else
        (case Update E namespace (snapshot h4 q) of
           Inl err \<Rightarrow>
             (Some (Errorf ''update device node %s/%s: %v'' [err]),
              evs @ [klog_Infof ''device node controller: updating node object with %+v'',
                     Kubeclient_Update namespace (snapshot h4 q)], h4)
         | Inr _ \<Rightarrow>
             (None,
              evs @ [klog_Infof ''device node controller: updating node object with %+v'',
                     Kubeclient_Update namespace (snapshot h4 q),
                     klog_Infof ''device node controller: updated node object %s/%s''],
              h4)))"
  by (cases err; cases req; cases "DeepEqual E (Devices (nodes h3 q)) devices")
     (simp_all add: syncNode_def Let_def split: sum.splits)

lemma syncNode_cases:
  obtains
    (lookup_failed) cachedNode e where
      "NodeLister_Get c namespace name = (cachedNode, Some e)" "\<not> IsNotFound e"
      "syncNode E c namespace name h = (Some e, [], h)"
  | (provider_failed) cachedNode err e h' where
      "NodeLister_Get c namespace name = (cachedNode, err)"
      "case err of None \<Rightarrow> True | Some e \<Rightarrow> IsNotFound e"
      "listDeviceNames E = Inl e"
      "syncNode E c namespace name h = (Some e, [], h')"
      "\<forall>a<brk h. nodes h' a = nodes h a \<and> arrays h' a = arrays h a"
  | (build_failed) err devices e where
      "NodeLister_Get c namespace name = (None, err)"
      "case err of None \<Rightarrow> True | Some e \<Rightarrow> IsNotFound e"
      "listDeviceNames E = Inr devices"
      "Build E namespace name devices (ownerRef c) = Inl e"
      "syncNode E c namespace name h = (Some e, [klog_Infof ''Devices List %+v''], h)"
  | (created) err devices node r tl where
      "NodeLister_Get c namespace name = (None, err)"
      "case err of None \<Rightarrow> True | Some e \<Rightarrow> IsNotFound e"
      "listDeviceNames E = Inr devices"
      "Build E namespace name devices (ownerRef c) = Inr node"
      "case Create E namespace node of
         Inl e \<Rightarrow> r = Some (Errorf ''create device node %s/%s: %v'' [e]) \<and> tl = []
       | Inr _ \<Rightarrow> r = None \<and>
                  tl = [klog_Infof ''device node controller: created node object %s/%s'']"
      "syncNode E c namespace name h =
         (r, [klog_Infof ''Devices List %+v'',
              klog_Infof ''device node controller: creating new node object for %+v'',
              Kubeclient_Create namespace node] @ tl, h)"
  | (unchanged) p err devices q h1 where
      "NodeLister_Get c namespace name = (Some p, err)"
      "case err of None \<Rightarrow> True | Some e \<Rightarrow> IsNotFound e"
      "listDeviceNames E = Inr devices"
      "DeepCopy p h = (q, h1)"
      "isOwnerRefsUpdateRequired c (OwnerReferences (nodes h1 q)) h1 =
         ((OwnerReferences (nodes h1 q), False), h1)"
      "DeepEqual E (Devices (nodes h p)) devices"
      "syncNode E c namespace name h = (None, [klog_Infof ''Devices List %+v''], h1)"
  | (updated) p err devices q h1 ownerRefs req h2 h3 differ h4 r tl where
      "NodeLister_Get c namespace name = (Some p, err)"
      "case err of None \<Rightarrow> True | Some e \<Rightarrow> IsNotFound e"
      "listDeviceNames E = Inr devices"
      "DeepCopy p h = (q, h1)"
      "isOwnerRefsUpdateRequired c (OwnerReferences (nodes h1 q)) h1 = ((ownerRefs, req), h2)"
      "h3 = (if req then set_OwnerReferences h2 q ownerRefs else h2)"
      "differ = (\<not> DeepEqual E (Devices (nodes h p)) devices)"
      "h4 = (if differ then set_Devices h3 q devices else h3)"
      "req \<or> differ"
      "case Update E namespace (snapshot h4 q) of
         Inl e \<Rightarrow> r = Some (Errorf ''update device node %s/%s: %v'' [e]) \<and> tl = []
       | Inr _ \<Rightarrow> r = None \<and>
                  tl = [klog_Infof ''device node controller: updated node object %s/%s'']"
      "syncNode E c namespace name h =
         (r, klog_Infof ''Devices List %+v'' #
             (if req then [klog_Infof ''device node controller: node owner references updated current=%+v, required=%+v''] else []) @
             (if differ then [klog_Infof ''device node controller: node devices updated current=%+v, required=%+v''] else []) @
             [klog_Infof ''device node controller: updating node object with %+v'',
              Kubeclient_Update namespace (snapshot h4 q)] @ tl, h4)"
proof -
  obtain cachedNode err where get: "NodeLister_Get c namespace name = (cachedNode, err)"
    by (cases "NodeLister_Get c namespace name")
  show ?thesis
  proof (cases "case err of None \<Rightarrow> True | Some e \<Rightarrow> IsNotFound e")
    case False
    then obtain e where "err = Some e" "\<not> IsNotFound e" by (cases err) auto
    with get show ?thesis using lookup_failed syncNode_lookup_error by metis
  next
    case ok: True
    show ?thesis
    proof (cases cachedNode)
      case None
      note abs = syncNode_absent[OF get[unfolded None] ok, of E h]
      show ?thesis
      proof (cases "listDeviceNames E")
        case (Inl e)
        with abs have "syncNode E c namespace name h = (Some e, [], h)" by simp
        then show ?thesis using provider_failed[OF get ok Inl] by simp
      next
        case (Inr devices)
        show ?thesis
        proof (cases "Build E namespace name devices (ownerRef c)")
          case (Inl e)
          with abs Inr have "syncNode E c namespace name h = (Some e, [klog_Infof ''Devices List %+v''], h)"
            by simp
          then show ?thesis using build_failed[OF get[unfolded None] ok Inr Inl] by simp
        next
          case (Inr node)
          show ?thesis
          proof (cases "Create E namespace node")
            case (Inl e)
            show ?thesis
              by (rule created[OF get[unfolded None] ok \<open>listDeviceNames E = Inr devices\<close> Inr,
                    of "Some (Errorf ''create device node %s/%s: %v'' [e])" "[]"])
                 (use abs \<open>listDeviceNames E = Inr devices\<close> Inr Inl in simp_all)
          next
            case (Inr n')
            show ?thesis
              by (rule created[OF get[unfolded None] ok \<open>listDeviceNames E = Inr devices\<close>
                      \<open>Build E namespace name devices (ownerRef c) = Inr node\<close>,
                    of None "[klog_Infof ''device node controller: created node object %s/%s'']"])
                 (use abs \<open>listDeviceNames E = Inr devices\<close>
                      \<open>Build E namespace name devices (ownerRef c) = Inr node\<close> Inr in simp_all)
          qed
        qed
      qed
    next
      case (Some p)
      note get' = get[unfolded Some]
      obtain q h1 where dc: "DeepCopy p h = (q, h1)" by (cases "DeepCopy p h")
      show ?thesis
      proof (cases "listDeviceNames E")
        case (Inl e)
        have "syncNode E c namespace name h = (Some e, [], h1)"
          using syncNode_present_provider_error[OF get' ok Inl, of h] dc by simp
        moreover have "\<forall>a<brk h. nodes h1 a = nodes h a \<and> arrays h1 a = arrays h a"
          using DeepCopy_fresh[OF dc] by blast
        ultimately show ?thesis using provider_failed[OF get ok Inl] by blast
      next
        case (Inr devices)
        obtain ownerRefs req h2 where
          io: "isOwnerRefsUpdateRequired c (OwnerReferences (nodes h1 q)) h1 = ((ownerRefs, req), h2)"
          by (metis surj_pair)
        define h3 where "h3 = (if req then set_OwnerReferences h2 q ownerRefs else h2)"
        define differ where "differ = (\<not> DeepEqual E (Devices (nodes h p)) devices)"
        define h4 where "h4 = (if differ then set_Devices h3 q devices else h3)"
        have fr: "nodes h2 = nodes h1" "req \<or> (h2 = h1 \<and> ownerRefs = OwnerReferences (nodes h1 q))"
          using isOwnerRefsUpdateRequired_frame[OF io] by auto
        have dev: "Devices (nodes h3 q) = Devices (nodes h p)"
          using DeepCopy_fields[OF dc] fr(1) by (simp add: h3_def set_OwnerReferences_def)
        note pres = syncNode_present[OF get' ok Inr dc io h3_def refl refl refl, unfolded dev]
        show ?thesis
        proof (cases "req \<or> differ")
          case False
          then have "\<not> req" "DeepEqual E (Devices (nodes h p)) devices" by (auto simp: differ_def)
          moreover from this fr have "h2 = h1" "ownerRefs = OwnerReferences (nodes h1 q)" by auto
          ultimately show ?thesis
            using unchanged[OF get' ok Inr dc] io pres by (simp add: h3_def)
        next
          case True
          show ?thesis
          proof (cases "Update E namespace (snapshot h4 q)")
            case (Inl e)
            show ?thesis
              by (rule updated[OF get' ok Inr dc io h3_def differ_def h4_def True,
                    of "Some (Errorf ''update device node %s/%s: %v'' [e])" "[]"])
                 (use pres True Inl in \<open>simp_all add: differ_def h4_def\<close>)
          next
            case (Inr n')
            show ?thesis
              by (rule updated[OF get' ok \<open>listDeviceNames E = Inr devices\<close> dc io h3_def differ_def h4_def True,
                    of None "[klog_Infof ''device node controller: updated node object %s/%s'']"])
                 (use pres True Inr in \<open>simp_all add: differ_def h4_def\<close>)
          qed
        qed
      qed
    qed
  qed
qed

lemma working_copy:
  assumes dc: "DeepCopy p h = (q, h1)"
    and io: "isOwnerRefsUpdateRequired c (OwnerReferences (nodes h1 q)) h1 = ((ownerRefs, req), h2)"
    and h3: "h3 = (if req then set_OwnerReferences h2 q ownerRefs else h2)"
    and h4: "h4 = (if differ then set_Devices h3 q devices else h3)"
  shows "Namespace (snapshot h4 q) = Namespace (nodes h p)"
    and "Name (snapshot h4 q) = Name (nodes h p)"
    and "ResourceVersion (snapshot h4 q) = ResourceVersion (nodes h p)"
    and "CreationTimestamp (snapshot h4 q) = CreationTimestamp (nodes h p)"
    and "Devices (snapshot h4 q) = (if differ then devices else Devices (nodes h p))"
    and "\<forall>a<brk h. nodes h4 a = nodes h a \<and> arrays h4 a = arrays h a"
proof -
  note fr = isOwnerRefsUpdateRequired_frame[OF io]
  note cp = DeepCopy_fields[OF dc]
  note fresh = DeepCopy_fresh[OF dc]
  have n4: "nodes h4 q = (nodes h1 q)\<lparr>OwnerReferences := OwnerReferences (nodes h4 q),
                                      Devices := (if differ then devices else Devices (nodes h1 q))\<rparr>"
    using fr by (auto simp: h3 h4 set_OwnerReferences_def set_Devices_def)
  show "Namespace (snapshot h4 q) = Namespace (nodes h p)"
    and "Name (snapshot h4 q) = Name (nodes h p)"
    and "ResourceVersion (snapshot h4 q) = ResourceVersion (nodes h p)"
    and "CreationTimestamp (snapshot h4 q) = CreationTimestamp (nodes h p)"
    and "Devices (snapshot h4 q) = (if differ then devices else Devices (nodes h p))"
    using cp by (simp_all add: snapshot_def, (subst n4, simp)+)
  show "\<forall>a<brk h. nodes h4 a = nodes h a \<and> arrays h4 a = arrays h a"
  proof (intro allI impI)
    fix a assume a: "a < brk h"
    have "a \<noteq> q" using fresh a by auto
    moreover have "nodes h2 = nodes h1" using fr by simp
    ultimately have "nodes h4 a = nodes h1 a"
      by (simp add: h3 h4 set_OwnerReferences_def set_Devices_def)
    moreover have "arrays h4 = arrays h2"
      by (simp add: h3 h4 set_OwnerReferences_def set_Devices_def)
    moreover have "OwnerReferences (nodes h1 q) \<noteq> Some a" "a \<noteq> brk h1"
      using fresh a by auto
    then have "arrays h2 a = arrays h1 a" using fr by (metis (full_types))
    ultimately show "nodes h4 a = nodes h a \<and> arrays h4 a = arrays h a"
      using fresh a by simp
  qed
qed

lemma syncNode_no_queue_calls:
  "filter isQueueCall (fst (snd (syncNode E c namespace name h))) = []"
  by (cases rule: syncNode_cases[of c namespace name E h]) (auto split: sum.splits)

lemma syncHandler_no_queue_calls:
  "filter isQueueCall (fst (snd (syncHandler E c key h))) = []"
  by (auto simp: syncHandler_def syncNode_no_queue_calls split: sum.splits)

lemma filter_Done_queue_calls:
  "filter (\<lambda>e. e = workqueue_Done obj) evs =
   filter (\<lambda>e. e = workqueue_Done obj) (filter isQueueCall evs)"
  by (induction evs) auto

section \<open>The claims\<close>

text \<open>
  Claim C1. The device comparison, with the comparison of the spec. The cached record is
  found and the provider answers. If the cached devices and the provider's list hold the
  same devices, in whatever order (a permutation of the provider's list does), the
  comparison marks no update: the devices-updated line is not logged, an update is
  submitted only if the owner references were repaired, and it carries the cached device
  list as it was. If the two differ as sets, the devices-updated line is logged and
  exactly one update is submitted, whose device list is the provider's list itself.
\<close>

theorem syncNode_devices_comparison:
  assumes "NodeLister_Get c namespace name = (Some p, None)"
    and "listDeviceNames E = Inr devices"
    and "DeepEqual E = Semantic_DeepEqual"
  shows "case syncNode E c namespace name h of (r, evs, h') \<Rightarrow>
     (set (Devices (snapshot h p)) = set devices \<longrightarrow>
        klog_Infof ''device node controller: node devices updated current=%+v, required=%+v''
          \<notin> set evs \<and>
        (\<forall>ns n. Kubeclient_Update ns n \<in> set evs \<longrightarrow>
           Devices n = Devices (snapshot h p) \<and>
           klog_Infof ''device node controller: node owner references updated current=%+v, required=%+v''
             \<in> set evs)) \<and>
     (set (Devices (snapshot h p)) \<noteq> set devices \<longrightarrow>
        klog_Infof ''device node controller: node devices updated current=%+v, required=%+v''
          \<in> set evs \<and>
        (\<exists>n. filter isStoreWrite evs = [Kubeclient_Update namespace n] \<and> Devices n = devices))"
proof (cases rule: syncNode_cases[of c namespace name E h])
  case (lookup_failed cachedNode e)
  with assms(1) show ?thesis by simp
next
  case (provider_failed cachedNode err e h')
  with assms(2) show ?thesis by simp
next
  case (build_failed err devices e)
  with assms(1) show ?thesis by simp
next
  case (created err devices node r tl)
  with assms(1) show ?thesis by simp
next
  case (unchanged p' err devices' q h1)
  with assms have "p' = p" "devices' = devices" by simp_all
  with unchanged(6) assms(3) have "set (Devices (snapshot h p)) = set devices"
    by (simp add: Semantic_DeepEqual_def snapshot_def)
  with unchanged(7) show ?thesis by simp
next
  case (updated p' err devices' q h1 ownerRefs req h2 h3 differ h4 r tl)
  with assms have eq: "p' = p" "devices' = devices" by simp_all
  have d: "differ = (set (Devices (snapshot h p)) \<noteq> set devices)"
    using updated(7) assms(3) unfolding eq by (simp add: Semantic_DeepEqual_def snapshot_def)
  have dv: "Devices (snapshot h4 q) = (if differ then devices else Devices (snapshot h p))"
    using working_copy(5)[OF updated(4,5,6,8)] unfolding eq by (simp add: snapshot_def)
  have tl: "filter isStoreWrite tl = []" "\<forall>ns n. Kubeclient_Update ns n \<notin> set tl"
    "klog_Infof ''device node controller: node devices updated current=%+v, required=%+v''
       \<notin> set tl"
    using updated(10) by (auto split: sum.splits)
  show ?thesis
  proof (cases differ)
    case True
    with updated(11) d dv tl show ?thesis by simp
  next
    case False
    with updated(9) have req by simp
    with False updated(11) d dv tl show ?thesis by auto
  qed
qed

text \<open>
  On the example: the cached devices are the provider's list in another order and the
  owner references are in order, so nothing is written; and the cached devices
  \<^verbatim>\<open>sda, sdb\<close> against the provider's \<^verbatim>\<open>sda, sdc\<close>, where one update carries the
  provider's list.
\<close>

theorem syncNode_devices_comparison_witness:
  "(let c = example_controller (Str ''openebs/node1'', False);
        E = (example_env (Inr [''sda'', ''sdb'']))\<lparr>DeepEqual := Semantic_DeepEqual\<rparr>;
        h = example_heap [example_owner ''uid-7'' (Some True)] [''sdb'', ''sda'']
    in NodeLister_Get c ''openebs'' ''node1'' = (Some 0, None) \<and>
       listDeviceNames E = Inr [''sda'', ''sdb''] \<and> DeepEqual E = Semantic_DeepEqual \<and>
       set (Devices (snapshot h 0)) = set [''sda'', ''sdb''] \<and>
       klog_Infof ''device node controller: node devices updated current=%+v, required=%+v''
          \<notin> set (fst (snd (syncNode E c ''openebs'' ''node1'' h)))) \<and>
   (let c = example_controller (Str ''openebs/node1'', False);
        E = (example_env (Inr [''sda'', ''sdc'']))\<lparr>DeepEqual := Semantic_DeepEqual\<rparr>;
        h = example_heap [example_owner ''uid-7'' (Some True)] [''sda'', ''sdb'']
    in NodeLister_Get c ''openebs'' ''node1'' = (Some 0, None) \<and>
       listDeviceNames E = Inr [''sda'', ''sdc''] \<and> DeepEqual E = Semantic_DeepEqual \<and>
       set (Devices (snapshot h 0)) \<noteq> set [''sda'', ''sdc''] \<and>
       (\<exists>n. filter isStoreWrite (fst (snd (syncNode E c ''openebs'' ''node1'' h))) =
              [Kubeclient_Update ''openebs'' n] \<and> Devices n = [''sda'', ''sdc'']))"
proof -
  define c where "c = example_controller (Str ''openebs/node1'', False)"
  define E1 where "E1 = (example_env (Inr [''sda'', ''sdb'']))\<lparr>DeepEqual := Semantic_DeepEqual\<rparr>"
  define E2 where "E2 = (example_env (Inr [''sda'', ''sdc'']))\<lparr>DeepEqual := Semantic_DeepEqual\<rparr>"
  define h1 where "h1 = example_heap [example_owner ''uid-7'' (Some True)] [''sdb'', ''sda'']"
  define h2 where "h2 = example_heap [example_owner ''uid-7'' (Some True)] [''sda'', ''sdb'']"
  have g: "NodeLister_Get c ''openebs'' ''node1'' = (Some 0, None)"
    by (simp add: c_def example_controller_def)
  have l1: "listDeviceNames E1 = Inr [''sda'', ''sdb'']" and q1: "DeepEqual E1 = Semantic_DeepEqual"
    by (simp_all add: E1_def example_env_def listDeviceNames_def)
  have l2: "listDeviceNames E2 = Inr [''sda'', ''sdc'']" and q2: "DeepEqual E2 = Semantic_DeepEqual"
    by (simp_all add: E2_def example_env_def listDeviceNames_def)
  have s1: "set (Devices (snapshot h1 0)) = set [''sda'', ''sdb'']"
    by (auto simp: h1_def snapshot_def example_heap_def example_node_def)
  have "Devices (snapshot h2 0) = [''sda'', ''sdb'']"
    by (simp add: h2_def snapshot_def example_heap_def example_node_def)
  moreover have "''sdb'' \<in> set [''sda'', ''sdb'']" "''sdb'' \<notin> set [''sda'', ''sdc'']"
    by simp_all
  ultimately have s2: "set (Devices (snapshot h2 0)) \<noteq> set [''sda'', ''sdc'']"
    by metis
  obtain r1 evs1 h1' where res1: "syncNode E1 c ''openebs'' ''node1'' h1 = (r1, evs1, h1')"
    by (metis surj_pair)
  obtain r2 evs2 h2' where res2: "syncNode E2 c ''openebs'' ''node1'' h2 = (r2, evs2, h2')"
    by (metis surj_pair)
  note t1 = syncNode_devices_comparison[OF g l1 q1, of h1, unfolded res1 prod.case,
      THEN conjunct1, THEN mp, OF s1]
  note c1 = t1[THEN conjunct1]
  note t2 = syncNode_devices_comparison[OF g l2 q2, of h2, unfolded res2 prod.case,
      THEN conjunct2, THEN mp, OF s2]
  note c2 = t2[THEN conjunct2]
  from g l1 q1 s1 c1 l2 q2 s2 c2 show ?thesis
    unfolding Let_def c_def[symmetric] E1_def[symmetric] E2_def[symmetric]
      h1_def[symmetric] h2_def[symmetric] res1 res2 fst_conv snd_conv
    by blast
qed

text \<open>
  Claim C2, as amended. Idempotent no-op. The cached record is found; the first of its
  owner references that has the required owner's UID carries the required controller
  flag (so it is with every record that holds the required owner with the right flag and
  has at most one entry per UID); the comparison finds its devices equal to the
  provider's list. Then the pass returns nil and its only event is the log line with the
  device list: no create, no update.
\<close>

theorem syncNode_idempotent_noop:
  assumes "NodeLister_Get c namespace name = (Some p, None)"
    and "listDeviceNames E = Inr devices"
    and "i < length (OwnerReferences (snapshot h p))"
    and "UID (OwnerReferences (snapshot h p) ! i) = UID (ownerRef c)"
    and "\<forall>j<i. UID (OwnerReferences (snapshot h p) ! j) \<noteq> UID (ownerRef c)"
    and "Controller (OwnerReferences (snapshot h p) ! i) = Controller (ownerRef c)"
    and "DeepEqual E (Devices (snapshot h p)) devices"
  shows "fst (syncNode E c namespace name h) = None \<and>
         fst (snd (syncNode E c namespace name h)) = [klog_Infof ''Devices List %+v''] \<and>
         filter isStoreWrite (fst (snd (syncNode E c namespace name h))) = []"
proof -
  obtain q h1 where dc: "DeepCopy p h = (q, h1)" by (cases "DeepCopy p h")
  let ?s = "OwnerReferences (nodes h1 q)"
  have el: "elems h1 ?s = OwnerReferences (snapshot h p)"
    using DeepCopy_elems[OF dc] by (simp add: snapshot_def)
  have io: "isOwnerRefsUpdateRequired c ?s h1 = ((?s, False), h1)"
    using isOwnerRefsUpdateRequired_found[where i = i and h = h1 and s = ?s and c = c]
      assms(3-6)
    unfolding el by simp
  have dev: "Devices (nodes h1 q) = Devices (nodes h p)"
    using DeepCopy_fields[OF dc] by simp
  have "syncNode E c namespace name h = (None, [klog_Infof ''Devices List %+v''], h1)"
    using syncNode_present[OF assms(1) _ assms(2) dc io refl refl refl refl] assms(7)
    by (simp add: dev snapshot_def)
  then show ?thesis by simp
qed

text \<open>
  On the example: the cached record of \<^verbatim>\<open>openebs/node1\<close> holds a foreign owner, then
  the required owner with the controller flag set, then a stale second entry with the
  same UID; its devices are those the provider lists.
\<close>

theorem syncNode_idempotent_noop_witness:
  "NodeLister_Get (example_controller (Str ''openebs/node1'', False)) ''openebs'' ''node1'' =
     (Some 0, None) \<and>
   listDeviceNames (example_env (Inr [''sda'', ''sdb''])) = Inr [''sda'', ''sdb''] \<and>
   OwnerReferences (snapshot
      (example_heap [example_owner ''uid-3'' None, example_owner ''uid-7'' (Some True),
                     example_owner ''uid-7'' (Some False)] [''sda'', ''sdb'']) 0) =
     [example_owner ''uid-3'' None, example_owner ''uid-7'' (Some True),
      example_owner ''uid-7'' (Some False)] \<and>
   UID (example_owner ''uid-7'' (Some True)) =
     UID (ownerRef (example_controller (Str ''openebs/node1'', False))) \<and>
   UID (example_owner ''uid-3'' None) \<noteq>
     UID (ownerRef (example_controller (Str ''openebs/node1'', False))) \<and>
   Controller (example_owner ''uid-7'' (Some True)) =
     Controller (ownerRef (example_controller (Str ''openebs/node1'', False))) \<and>
   DeepEqual (example_env (Inr [''sda'', ''sdb'']))
     (Devices (snapshot
        (example_heap [example_owner ''uid-3'' None, example_owner ''uid-7'' (Some True),
                       example_owner ''uid-7'' (Some False)] [''sda'', ''sdb'']) 0))
     [''sda'', ''sdb''] \<and>
   fst (syncNode (example_env (Inr [''sda'', ''sdb'']))
          (example_controller (Str ''openebs/node1'', False)) ''openebs'' ''node1''
          (example_heap [example_owner ''uid-3'' None, example_owner ''uid-7'' (Some True),
                         example_owner ''uid-7'' (Some False)] [''sda'', ''sdb''])) = None \<and>
   filter isStoreWrite
     (fst (snd (syncNode (example_env (Inr [''sda'', ''sdb'']))
          (example_controller (Str ''openebs/node1'', False)) ''openebs'' ''node1''
          (example_heap [example_owner ''uid-3'' None, example_owner ''uid-7'' (Some True),
                         example_owner ''uid-7'' (Some False)] [''sda'', ''sdb''])))) = []"
proof -
  define c where "c = example_controller (Str ''openebs/node1'', False)"
  define E where "E = example_env (Inr [''sda'', ''sdb''])"
  define refs where "refs = [example_owner ''uid-3'' None, example_owner ''uid-7'' (Some True),
                     example_owner ''uid-7'' (Some False)]"
  define h where "h = example_heap refs [''sda'', ''sdb'']"
  have a1: "NodeLister_Get c ''openebs'' ''node1'' = (Some 0, None)"
    by (simp add: c_def example_controller_def)
  have a2: "listDeviceNames E = Inr [''sda'', ''sdb'']"
    by (simp add: E_def example_env_def listDeviceNames_def)
  have sn: "OwnerReferences (snapshot h 0) = refs" "Devices (snapshot h 0) = [''sda'', ''sdb'']"
    by (simp_all add: h_def snapshot_def example_heap_def example_node_def elems_def)
  have u: "UID (example_owner ''uid-7'' (Some True)) = UID (ownerRef c)"
    "UID (example_owner ''uid-3'' None) \<noteq> UID (ownerRef c)"
    "Controller (example_owner ''uid-7'' (Some True)) = Controller (ownerRef c)"
    by (simp_all add: c_def example_controller_def example_owner_def)
  have a3: "1 < length (OwnerReferences (snapshot h 0))"
    by (simp add: sn refs_def)
  have a4: "UID (OwnerReferences (snapshot h 0) ! 1) = UID (ownerRef c)"
    using u(1) by (simp add: sn refs_def)
  have a5: "\<forall>j<1. UID (OwnerReferences (snapshot h 0) ! j) \<noteq> UID (ownerRef c)"
    using u(2) by (simp add: sn refs_def)
  have a6: "Controller (OwnerReferences (snapshot h 0) ! 1) = Controller (ownerRef c)"
    using u(3) by (simp add: sn refs_def)
  have a7: "DeepEqual E (Devices (snapshot h 0)) [''sda'', ''sdb'']"
    by (simp add: sn E_def example_env_def)
  note t = syncNode_idempotent_noop[OF a1 a2 a3 a4 a5 a6 a7]
  from a1 a2 sn(1) u a7 t[THEN conjunct1] t[THEN conjunct2, THEN conjunct2] show ?thesis
    unfolding c_def[symmetric] E_def[symmetric] refs_def[symmetric] h_def[symmetric]
    by blast
qed

text \<open>
  Claim C2 as stated fails where two entries share the required owner's UID and the
  first has the wrong flag. The cached record holds the required owner once with the
  controller flag unset and once with it set, and its devices are those the provider
  lists: the record contains an entry with the required UID and the correct flag and its
  device set matches. The loop of \<^verbatim>\<open>isOwnerRefsUpdateRequired\<close> stops at the first
  entry, corrects its flag and reports a change, and the pass submits an update.
\<close>

theorem syncNode_idempotent_noop_counterexample:
  "NodeLister_Get (example_controller (Str ''openebs/node1'', False)) ''openebs'' ''node1'' =
     (Some 0, None) \<and>
   listDeviceNames (example_env (Inr [''sda'', ''sdb''])) = Inr [''sda'', ''sdb''] \<and>
   example_owner ''uid-7'' (Some True) \<in>
     set (OwnerReferences (snapshot
       (example_heap [example_owner ''uid-7'' (Some False), example_owner ''uid-7'' (Some True)]
          [''sda'', ''sdb'']) 0)) \<and>
   UID (example_owner ''uid-7'' (Some True)) =
     UID (ownerRef (example_controller (Str ''openebs/node1'', False))) \<and>
   Controller (example_owner ''uid-7'' (Some True)) =
     Controller (ownerRef (example_controller (Str ''openebs/node1'', False))) \<and>
   DeepEqual (example_env (Inr [''sda'', ''sdb'']))
     (Devices (snapshot
       (example_heap [example_owner ''uid-7'' (Some False), example_owner ''uid-7'' (Some True)]
          [''sda'', ''sdb'']) 0))
     [''sda'', ''sdb''] \<and>
   fst (syncNode (example_env (Inr [''sda'', ''sdb'']))
          (example_controller (Str ''openebs/node1'', False)) ''openebs'' ''node1''
          (example_heap [example_owner ''uid-7'' (Some False), example_owner ''uid-7'' (Some True)]
             [''sda'', ''sdb''])) = None \<and>
   filter isStoreWrite
     (fst (snd (syncNode (example_env (Inr [''sda'', ''sdb'']))
          (example_controller (Str ''openebs/node1'', False)) ''openebs'' ''node1''
          (example_heap [example_owner ''uid-7'' (Some False), example_owner ''uid-7'' (Some True)]
             [''sda'', ''sdb''])))) =
     [Kubeclient_Update ''openebs''
        (example_node [example_owner ''uid-7'' (Some True), example_owner ''uid-7'' (Some True)]
           [''sda'', ''sdb''])]"
  by (simp add: syncNode_def example_controller_def example_env_def example_heap_def
      example_node_def example_owner_def listDeviceNames_def DeepCopy_def
      isOwnerRefsUpdateRequired_def elems_def set_elem_def set_OwnerReferences_def
      set_Devices_def snapshot_def Let_def)

text \<open>
  Claim C3. Create-on-absence. The lister has no record for the key (it answers nil,
  with a not-found error or none), the provider's enumeration succeeds, and the builder
  is the one of the spec. Then the pass makes exactly one store call, a create in the
  key's namespace, and no update; the record submitted has the key's namespace and
  name, the provider's device list, and the required owner reference as its only owner
  reference; the heap is untouched. If the create succeeds the pass returns nil right
  after logging it; if it fails the pass returns the wrapped error.
\<close>

theorem syncNode_create_on_absence:
  assumes "NodeLister_Get c namespace name = (None, err)"
    and "case err of None \<Rightarrow> True | Some e \<Rightarrow> IsNotFound e"
    and "listDeviceNames E = Inr devices"
    and "Build E = nodebuilder_Build"
  shows "\<exists>node r tl.
      syncNode E c namespace name h =
        (r, [klog_Infof ''Devices List %+v'',
             klog_Infof ''device node controller: creating new node object for %+v'',
             Kubeclient_Create namespace node] @ tl, h) \<and>
      filter isStoreWrite (fst (snd (syncNode E c namespace name h))) =
        [Kubeclient_Create namespace node] \<and>
      Namespace node = namespace \<and> Name node = name \<and> Devices node = devices \<and>
      OwnerReferences node = [ownerRef c] \<and>
      (case Create E namespace node of
         Inl e \<Rightarrow> r = Some (Errorf ''create device node %s/%s: %v'' [e]) \<and> tl = []
       | Inr _ \<Rightarrow> r = None \<and>
                  tl = [klog_Infof ''device node controller: created node object %s/%s''])"
proof -
  define node :: "'a DeviceNode_val" where
    "node = \<lparr>Namespace = namespace, Name = name, ResourceVersion = [], CreationTimestamp = [],
             OwnerReferences = [ownerRef c], Devices = devices\<rparr>"
  have b: "Build E namespace name devices (ownerRef c) = Inr node"
    by (simp add: assms(4) nodebuilder_Build_def node_def)
  note abs = syncNode_absent[OF assms(1,2), of E h]
  show ?thesis
  proof (cases "Create E namespace node")
    case (Inl e)
    with abs b assms(3) have "syncNode E c namespace name h =
        (Some (Errorf ''create device node %s/%s: %v'' [e]),
         [klog_Infof ''Devices List %+v'',
          klog_Infof ''device node controller: creating new node object for %+v'',
          Kubeclient_Create namespace node] @ [], h)" by simp
    then show ?thesis using Inl
      by (intro exI[of _ node] exI[of _ "Some (Errorf ''create device node %s/%s: %v'' [e])"]
            exI[of _ "[]"]) (simp add: node_def)
  next
    case (Inr n')
    with abs b assms(3) have "syncNode E c namespace name h =
        (None,
         [klog_Infof ''Devices List %+v'',
          klog_Infof ''device node controller: creating new node object for %+v'',
          Kubeclient_Create namespace node] @
         [klog_Infof ''device node controller: created node object %s/%s''], h)" by simp
    then show ?thesis using Inr
      by (intro exI[of _ node] exI[of _ None]
            exI[of _ "[klog_Infof ''device node controller: created node object %s/%s'']"])
         (simp add: node_def)
  qed
qed

text \<open>
  On the example: the lister knows no \<^verbatim>\<open>openebs/node2\<close>, so the first pass for that
  key creates the record.
\<close>

theorem syncNode_create_on_absence_witness:
  "(let c = example_controller (Str ''openebs/node2'', False);
        E = (example_env (Inr [''sda'', ''sdb'']))\<lparr>Build := nodebuilder_Build\<rparr>
    in NodeLister_Get c ''openebs'' ''node2'' = (None, Some NotFound) \<and>
       IsNotFound NotFound \<and>
       listDeviceNames E = Inr [''sda'', ''sdb''] \<and>
       Build E = nodebuilder_Build \<and>
       (\<exists>node. filter isStoreWrite (fst (snd (syncNode E c ''openebs'' ''node2'' (example_heap [] [])))) =
                 [Kubeclient_Create ''openebs'' node] \<and>
               Namespace node = ''openebs'' \<and> Name node = ''node2'' \<and>
               Devices node = [''sda'', ''sdb''] \<and>
               OwnerReferences node = [example_owner ''uid-7'' (Some True)]) \<and>
       fst (syncNode E c ''openebs'' ''node2'' (example_heap [] [])) = None)"
proof -
  define c where "c = example_controller (Str ''openebs/node2'', False)"
  define E where "E = (example_env (Inr [''sda'', ''sdb'']))\<lparr>Build := nodebuilder_Build\<rparr>"
  have a1: "NodeLister_Get c ''openebs'' ''node2'' = (None, Some NotFound)"
    by (simp add: c_def example_controller_def)
  have a2: "case Some NotFound of None \<Rightarrow> True | Some e \<Rightarrow> IsNotFound e" by simp
  have a3: "listDeviceNames E = Inr [''sda'', ''sdb'']"
    by (simp add: E_def example_env_def listDeviceNames_def)
  have a4: "Build E = nodebuilder_Build" by (simp add: E_def)
  have cr: "Create E ns n = Inr n" for ns n by (simp add: E_def example_env_def)
  have o: "ownerRef c = example_owner ''uid-7'' (Some True)"
    by (simp add: c_def example_controller_def)
  from syncNode_create_on_absence[OF a1 a2 a3 a4, of "example_heap [] []"]
  have "(\<exists>node. filter isStoreWrite (fst (snd (syncNode E c ''openebs'' ''node2'' (example_heap [] [])))) =
                 [Kubeclient_Create ''openebs'' node] \<and>
               Namespace node = ''openebs'' \<and> Name node = ''node2'' \<and>
               Devices node = [''sda'', ''sdb''] \<and>
               OwnerReferences node = [example_owner ''uid-7'' (Some True)]) \<and>
       fst (syncNode E c ''openebs'' ''node2'' (example_heap [] [])) = None"
    unfolding cr o by auto
  with a1 a3 a4 show ?thesis
    unfolding Let_def c_def[symmetric] E_def[symmetric] by simp
qed

text \<open>
  Claim C4. Owner-reference repair. Let \<open>i\<close> be the first index whose entry has the
  required owner's UID. If the controller flag of that entry differs from the required
  one, the function reports a change and returns the slice it was given, whose backing
  array now holds the same entries except that entry \<open>i\<close> has the required flag (its
  other fields, the other entries, later entries with the same UID included, and
  everything else in the heap are as before). If the flag is already the required one,
  it reports no change and nothing is written. If no entry has the UID, it reports a
  change and returns a slice holding all the old entries followed by the required owner
  reference; no array that existed before is written.
\<close>

theorem isOwnerRefsUpdateRequired_contract:
  "(case isOwnerRefsUpdateRequired c ownerRefs h of ((ownerRefs', updated), h') \<Rightarrow>
     (i < length (elems h ownerRefs) \<and> UID (elems h ownerRefs ! i) = UID (ownerRef c) \<and>
          (\<forall>j<i. UID (elems h ownerRefs ! j) \<noteq> UID (ownerRef c)) \<longrightarrow>
        (if Controller (elems h ownerRefs ! i) \<noteq> Controller (ownerRef c)
         then updated \<and> ownerRefs' = ownerRefs \<and>
              elems h' ownerRefs' =
                (elems h ownerRefs)[i := (elems h ownerRefs ! i)\<lparr>Controller := Controller (ownerRef c)\<rparr>] \<and>
              nodes h' = nodes h \<and> brk h' = brk h \<and>
              (\<forall>a. Some a \<noteq> ownerRefs \<longrightarrow> arrays h' a = arrays h a)
         else \<not> updated \<and> ownerRefs' = ownerRefs \<and> h' = h)) \<and>
     ((\<forall>r \<in> set (elems h ownerRefs). UID r \<noteq> UID (ownerRef c)) \<longrightarrow>
        updated \<and> elems h' ownerRefs' = elems h ownerRefs @ [ownerRef c] \<and>
        nodes h' = nodes h \<and> (\<forall>a < brk h. arrays h' a = arrays h a)))"
proof -
  let ?xs = "elems h ownerRefs"
  let ?req = "ownerRef c"
  obtain ownerRefs' updated h' where
    res: "isOwnerRefsUpdateRequired c ownerRefs h = ((ownerRefs', updated), h')"
    by (metis surj_pair)
  have A: "if Controller (?xs ! i) \<noteq> Controller ?req
         then updated \<and> ownerRefs' = ownerRefs \<and>
              elems h' ownerRefs' = ?xs[i := (?xs ! i)\<lparr>Controller := Controller ?req\<rparr>] \<and>
              nodes h' = nodes h \<and> brk h' = brk h \<and>
              (\<forall>a. Some a \<noteq> ownerRefs \<longrightarrow> arrays h' a = arrays h a)
         else \<not> updated \<and> ownerRefs' = ownerRefs \<and> h' = h"
    if "i < length ?xs \<and> UID (?xs ! i) = UID ?req \<and> (\<forall>j<i. UID (?xs ! j) \<noteq> UID ?req)"
  proof (cases "Controller (?xs ! i) \<noteq> Controller ?req")
    case True
    with isOwnerRefsUpdateRequired_found[where i = i and h = h and s = ownerRefs and c = c] that res
    have "ownerRefs' = ownerRefs" "updated"
      "h' = set_elem h ownerRefs i ((?xs ! i)\<lparr>Controller := Controller ?req\<rparr>)"
      by simp_all
    then show ?thesis using True
      by (auto simp: elems_set_elem) (auto simp: set_elem_def split: option.splits)
  next
    case False
    with isOwnerRefsUpdateRequired_found[where i = i and h = h and s = ownerRefs and c = c] that res show ?thesis by simp
  qed
  have B: "updated \<and> elems h' ownerRefs' = ?xs @ [?req] \<and>
        nodes h' = nodes h \<and> (\<forall>a < brk h. arrays h' a = arrays h a)"
    if "\<forall>r \<in> set ?xs. UID r \<noteq> UID ?req"
    using isOwnerRefsUpdateRequired_absent[OF that] res by (auto simp: elems_def)
  from A have A': "i < length ?xs \<and> UID (?xs ! i) = UID ?req \<and>
          (\<forall>j<i. UID (?xs ! j) \<noteq> UID ?req) \<longrightarrow>
        (if Controller (?xs ! i) \<noteq> Controller ?req
         then updated \<and> ownerRefs' = ownerRefs \<and>
              elems h' ownerRefs' = ?xs[i := (?xs ! i)\<lparr>Controller := Controller ?req\<rparr>] \<and>
              nodes h' = nodes h \<and> brk h' = brk h \<and>
              (\<forall>a. Some a \<noteq> ownerRefs \<longrightarrow> arrays h' a = arrays h a)
         else \<not> updated \<and> ownerRefs' = ownerRefs \<and> h' = h)"
    by blast
  from B have B': "(\<forall>r \<in> set ?xs. UID r \<noteq> UID ?req) \<longrightarrow>
        updated \<and> elems h' ownerRefs' = ?xs @ [?req] \<and>
        nodes h' = nodes h \<and> (\<forall>a < brk h. arrays h' a = arrays h a)"
    by blast
  show ?thesis
    unfolding res by (simp only: prod.case) (rule conjI[OF A' B'])
qed

text \<open>
  The contract on the example: a foreign entry, then the required owner with the flag
  unset, then a second entry with the same UID; the same list with the flag already set;
  and a list holding the foreign entry alone.
\<close>

theorem isOwnerRefsUpdateRequired_contract_witness:
  "(let c = example_controller (Str ''openebs/node1'', False);
        xs = [example_owner ''uid-3'' None, example_owner ''uid-7'' (Some False),
              example_owner ''uid-7'' None];
        h = example_heap xs []
    in elems h (Some 1) = xs \<and> 1 < length xs \<and> UID (xs ! 1) = UID (ownerRef c) \<and>
       UID (xs ! 0) \<noteq> UID (ownerRef c) \<and>
       Controller (xs ! 1) \<noteq> Controller (ownerRef c) \<and>
       (case isOwnerRefsUpdateRequired c (Some 1) h of ((ownerRefs', updated), h') \<Rightarrow>
          updated \<and> ownerRefs' = Some 1 \<and>
          elems h' ownerRefs' =
            [example_owner ''uid-3'' None, example_owner ''uid-7'' (Some True),
             example_owner ''uid-7'' None])) \<and>
   (let c = example_controller (Str ''openebs/node1'', False);
        xs = [example_owner ''uid-3'' None, example_owner ''uid-7'' (Some True)];
        h = example_heap xs []
    in elems h (Some 1) = xs \<and> 1 < length xs \<and> UID (xs ! 1) = UID (ownerRef c) \<and>
       UID (xs ! 0) \<noteq> UID (ownerRef c) \<and>
       Controller (xs ! 1) = Controller (ownerRef c) \<and>
       isOwnerRefsUpdateRequired c (Some 1) h = ((Some 1, False), h)) \<and>
   (let c = example_controller (Str ''openebs/node1'', False);
        xs = [example_owner ''uid-3'' None];
        h = example_heap xs []
    in elems h (Some 1) = xs \<and> length xs = 1 \<and> UID (xs ! 0) \<noteq> UID (ownerRef c) \<and>
       (case isOwnerRefsUpdateRequired c (Some 1) h of ((ownerRefs', updated), h') \<Rightarrow>
          updated \<and>
          elems h' ownerRefs' = [example_owner ''uid-3'' None, example_owner ''uid-7'' (Some True)]))"
proof -
  define c where "c = example_controller (Str ''openebs/node1'', False)"
  define xs1 where "xs1 = [example_owner ''uid-3'' None, example_owner ''uid-7'' (Some False),
              example_owner ''uid-7'' None]"
  define xs2 where "xs2 = [example_owner ''uid-3'' None, example_owner ''uid-7'' (Some True)]"
  define xs3 where "xs3 = [example_owner ''uid-3'' None]"
  have e: "elems (example_heap xs []) (Some 1) = xs" for xs
    by (simp add: elems_def example_heap_def)
  have u: "UID (ownerRef c) = ''uid-7''" "Controller (ownerRef c) = Some True"
    "ownerRef c = example_owner ''uid-7'' (Some True)"
    by (simp_all add: c_def example_controller_def example_owner_def)
  have g1: "1 < length xs1 \<and> UID (xs1 ! 1) = UID (ownerRef c) \<and>
       UID (xs1 ! 0) \<noteq> UID (ownerRef c) \<and> Controller (xs1 ! 1) \<noteq> Controller (ownerRef c)"
    by (simp add: xs1_def u example_owner_def)
  have g2: "1 < length xs2 \<and> UID (xs2 ! 1) = UID (ownerRef c) \<and>
       UID (xs2 ! 0) \<noteq> UID (ownerRef c) \<and> Controller (xs2 ! 1) = Controller (ownerRef c)"
    by (simp add: xs2_def u example_owner_def)
  have g3: "length xs3 = 1 \<and> UID (xs3 ! 0) \<noteq> UID (ownerRef c)"
    by (simp add: xs3_def u example_owner_def)
  from g1 have h1: "1 < length xs1 \<and> UID (xs1 ! 1) = UID (ownerRef c) \<and>
       (\<forall>j<1. UID (xs1 ! j) \<noteq> UID (ownerRef c)) \<and> Controller (xs1 ! 1) \<noteq> Controller (ownerRef c)"
    by simp
  from g2 have h2: "1 < length xs2 \<and> UID (xs2 ! 1) = UID (ownerRef c) \<and>
       (\<forall>j<1. UID (xs2 ! j) \<noteq> UID (ownerRef c)) \<and> Controller (xs2 ! 1) = Controller (ownerRef c)"
    by simp
  have h3: "\<forall>r \<in> set xs3. UID r \<noteq> UID (ownerRef c)"
    by (simp add: xs3_def u example_owner_def)
  have r1: "case isOwnerRefsUpdateRequired c (Some 1) (example_heap xs1 []) of
      ((ownerRefs', updated), h') \<Rightarrow>
          updated \<and> ownerRefs' = Some 1 \<and>
          elems h' ownerRefs' =
            [example_owner ''uid-3'' None, example_owner ''uid-7'' (Some True),
             example_owner ''uid-7'' None]"
  proof -
    obtain s' upd h' where
      res: "isOwnerRefsUpdateRequired c (Some 1) (example_heap xs1 []) = ((s', upd), h')"
      by (metis surj_pair)
    from isOwnerRefsUpdateRequired_contract[where c = c and ownerRefs = "Some 1"
        and h = "example_heap xs1 []" and i = 1] h1
    have "upd \<and> s' = Some 1 \<and>
          elems h' s' = xs1[1 := (xs1 ! 1)\<lparr>Controller := Controller (ownerRef c)\<rparr>]"
      unfolding res e by auto
    then show ?thesis
      unfolding res by (auto simp: xs1_def u example_owner_def)
  qed
  have r2: "isOwnerRefsUpdateRequired c (Some 1) (example_heap xs2 []) =
      ((Some 1, False), example_heap xs2 [])"
  proof -
    obtain s' upd h' where
      res: "isOwnerRefsUpdateRequired c (Some 1) (example_heap xs2 []) = ((s', upd), h')"
      by (metis surj_pair)
    from isOwnerRefsUpdateRequired_contract[where c = c and ownerRefs = "Some 1"
        and h = "example_heap xs2 []" and i = 1] h2
    have "\<not> upd \<and> s' = Some 1 \<and> h' = example_heap xs2 []"
      unfolding res e by auto
    then show ?thesis
      unfolding res by auto
  qed
  have r3: "case isOwnerRefsUpdateRequired c (Some 1) (example_heap xs3 []) of
      ((ownerRefs', updated), h') \<Rightarrow>
          updated \<and>
          elems h' ownerRefs' = [example_owner ''uid-3'' None, example_owner ''uid-7'' (Some True)]"
  proof -
    obtain s' upd h' where
      res: "isOwnerRefsUpdateRequired c (Some 1) (example_heap xs3 []) = ((s', upd), h')"
      by (metis surj_pair)
    from isOwnerRefsUpdateRequired_contract[where c = c and ownerRefs = "Some 1"
        and h = "example_heap xs3 []" and i = 0] h3
    have "upd \<and> elems h' s' = xs3 @ [ownerRef c]"
      unfolding res e by auto
    then show ?thesis
      unfolding res by (auto simp: xs3_def u)
  qed
  from g1 g2 g3 r1 r2 r3 e[of xs1] e[of xs2] e[of xs3] show ?thesis
    unfolding Let_def c_def[symmetric] xs1_def[symmetric] xs2_def[symmetric] xs3_def[symmetric]
    by blast
qed

text \<open>
  Claim C5. Foreign-key rejection. \<^verbatim>\<open>enqueueNode\<close> adds a key to the work queue only for
  a node whose namespace is the configured device namespace and whose name is the local
  node identifier. For any other node it makes no call on the queue at all: its only
  event is the warning that the node is skipped.
\<close>

theorem enqueueNode_foreign_key_rejection:
  "(\<forall>key. workqueue_Add key \<in> set (enqueueNode E node) \<longrightarrow>
      Namespace node = DeviceNamespace E \<and> Name node = NodeID E) \<and>
   (Namespace node \<noteq> DeviceNamespace E \<or> Name node \<noteq> NodeID E \<longrightarrow>
      enqueueNode E node = [klog_Warningf ''skipping device node object %s/%s''] \<and>
      filter isQueueCall (enqueueNode E node) = [])"
  by (auto simp: enqueueNode_def split: sum.splits)

text \<open>
  On the example: the record of the local node is enqueued under its key, the record of
  another node and a record of the same name in another namespace are skipped.
\<close>

theorem enqueueNode_foreign_key_rejection_witness:
  "(let E = example_env (Inr []); node = example_node [] [] :: string DeviceNode_val
    in workqueue_Add (Str ''openebs/node1'') \<in> set (enqueueNode E node) \<and>
       Namespace node = DeviceNamespace E \<and> Name node = NodeID E) \<and>
   (let E = example_env (Inr []);
        node = (example_node [] [] :: string DeviceNode_val)\<lparr>Name := ''node2''\<rparr>
    in Name node \<noteq> NodeID E \<and>
       enqueueNode E node = [klog_Warningf ''skipping device node object %s/%s'']) \<and>
   (let E = example_env (Inr []);
        node = (example_node [] [] :: string DeviceNode_val)\<lparr>Namespace := ''default''\<rparr>
    in Namespace node \<noteq> DeviceNamespace E \<and>
       enqueueNode E node = [klog_Warningf ''skipping device node object %s/%s''])"
proof -
  define E :: "string env" where "E = example_env (Inr [])"
  define n1 :: "string DeviceNode_val" where "n1 = example_node [] []"
  define n2 where "n2 = n1\<lparr>Name := ''node2''\<rparr>"
  define n3 where "n3 = n1\<lparr>Namespace := ''default''\<rparr>"
  have a1: "workqueue_Add (Str ''openebs/node1'') \<in> set (enqueueNode E n1)"
    by (simp add: enqueueNode_def E_def n1_def example_env_def example_node_def
        example_MetaNamespaceKeyFunc_def)
  have a2: "Name n2 \<noteq> NodeID E"
    by (simp add: n2_def E_def example_env_def)
  have a3: "Namespace n3 \<noteq> DeviceNamespace E"
    by (simp add: n3_def E_def example_env_def)
  note t = enqueueNode_foreign_key_rejection
  note c1 = t[where E = E and node = n1, THEN conjunct1, THEN spec, THEN mp, OF a1]
  note c2 = t[where E = E and node = n2, THEN conjunct2, THEN mp, OF disjI2, OF a2, THEN conjunct1]
  note c3 = t[where E = E and node = n3, THEN conjunct2, THEN mp, OF disjI1, OF a3, THEN conjunct1]
  from a1 a2 a3 c1 c2 c3 show ?thesis
    unfolding Let_def E_def[symmetric] n1_def[symmetric] n2_def[symmetric] n3_def[symmetric]
    by blast
qed

text \<open>
  Claim C6. Worker-loop error containment. An item is dequeued and the queue is not shut
  down. Then \<^verbatim>\<open>processNextWorkItem\<close> returns true, and \<^verbatim>\<open>Done\<close> is called exactly once
  for the item, as the last call on the queue. For a string key: if \<^verbatim>\<open>syncHandler\<close>
  returns an error the calls on the queue are \<^verbatim>\<open>AddRateLimited(key)\<close> and \<^verbatim>\<open>Done\<close>,
  with no \<^verbatim>\<open>Forget\<close>, and the error ends in \<^verbatim>\<open>runtime.HandleError\<close>; if it returns nil
  they are \<^verbatim>\<open>Forget\<close> and \<^verbatim>\<open>Done\<close>, with no requeue.
\<close>

theorem processNextWorkItem_error_containment:
  assumes "workqueue_Get c = (obj, False)"
  shows "case processNextWorkItem E c h of (continue, evs, h') \<Rightarrow>
      continue \<and>
      length (filter (\<lambda>e. e = workqueue_Done obj) evs) = 1 \<and>
      (\<exists>calls. filter isQueueCall evs = calls @ [workqueue_Done obj]) \<and>
      (obj = Str key \<longrightarrow>
         (case fst (syncHandler E c key h) of
            Some err \<Rightarrow>
              filter isQueueCall evs = [workqueue_AddRateLimited (Str key), workqueue_Done obj] \<and>
              last evs = runtime_HandleError (Errorf ''error syncing '%s': %s, requeuing'' [err])
          | None \<Rightarrow>
              filter isQueueCall evs = [workqueue_Forget obj, workqueue_Done obj]))"
proof -
  define r where "r k = fst (syncHandler E c k h)" for k
  define sevs where "sevs k = fst (snd (syncHandler E c k h))" for k
  define sh where "sh k = snd (snd (syncHandler E c k h))" for k
  have sh: "syncHandler E c k h = (r k, sevs k, sh k)" for k
    by (simp add: r_def sevs_def sh_def)
  have nq: "filter isQueueCall (sevs k) = []" for k
    using syncHandler_no_queue_calls[of E c k h] by (simp add: sh)
  obtain continue evs h' where res: "processNextWorkItem E c h = (continue, evs, h')"
    by (metis surj_pair)
  have q: "continue \<and>
      (case obj of
         NonString v \<Rightarrow> filter isQueueCall evs = [workqueue_Forget obj, workqueue_Done obj]
       | Str k \<Rightarrow>
          (case r k of
             Some err \<Rightarrow>
               filter isQueueCall evs = [workqueue_AddRateLimited (Str k), workqueue_Done obj] \<and>
               last evs = runtime_HandleError (Errorf ''error syncing '%s': %s, requeuing'' [err])
           | None \<Rightarrow> filter isQueueCall evs = [workqueue_Forget obj, workqueue_Done obj]))"
    using res assms
    by (cases obj; cases "r (case obj of Str k \<Rightarrow> k | _ \<Rightarrow> [])")
       (auto simp: processNextWorkItem_def sh nq)
  then obtain x where x: "filter isQueueCall evs = [x, workqueue_Done obj]"
      "x \<noteq> workqueue_Done obj"
    by (auto split: item.splits option.splits)
  have "filter (\<lambda>e. e = workqueue_Done obj) evs =
        filter (\<lambda>e. e = workqueue_Done obj) [x, workqueue_Done obj]"
    using filter_Done_queue_calls[of obj evs] unfolding x(1) .
  then have d: "length (filter (\<lambda>e. e = workqueue_Done obj) evs) = 1"
    using x(2) by simp
  have ex: "\<exists>calls. filter isQueueCall evs = calls @ [workqueue_Done obj]"
    using x(1) by simp
  from q d ex show ?thesis
    unfolding res by (auto simp: sh split: option.splits)
qed

text \<open>
  On the example: the key \<^verbatim>\<open>openebs/node1\<close> is dequeued while the provider fails, so
  the key is requeued with a rate limit; and the same key with a record that needs
  nothing, so the key is forgotten.
\<close>

theorem processNextWorkItem_error_containment_witness:
  "(let c = example_controller (Str ''openebs/node1'', False);
        E = example_env (Inl (Failure ''lsblk failed''))
    in workqueue_Get c = (Str ''openebs/node1'', False) \<and>
       fst (syncHandler E c ''openebs/node1'' (example_heap [] [])) = Some (Failure ''lsblk failed'') \<and>
       fst (processNextWorkItem E c (example_heap [] [])) \<and>
       filter isQueueCall (fst (snd (processNextWorkItem E c (example_heap [] [])))) =
         [workqueue_AddRateLimited (Str ''openebs/node1''), workqueue_Done (Str ''openebs/node1'')]) \<and>
   (let c = example_controller (Str ''openebs/node1'', False);
        E = example_env (Inr [''sda'']);
        h = example_heap [example_owner ''uid-7'' (Some True)] [''sda'']
    in workqueue_Get c = (Str ''openebs/node1'', False) \<and>
       fst (syncHandler E c ''openebs/node1'' h) = None \<and>
       fst (processNextWorkItem E c h) \<and>
       filter isQueueCall (fst (snd (processNextWorkItem E c h))) =
         [workqueue_Forget (Str ''openebs/node1''), workqueue_Done (Str ''openebs/node1'')])"
proof -
  define c where "c = example_controller (Str ''openebs/node1'', False)"
  define E1 where "E1 = example_env (Inl (Failure ''lsblk failed''))"
  define E2 where "E2 = example_env (Inr [''sda''])"
  define h1 :: "string heap" where "h1 = example_heap [] []"
  define h2 where "h2 = example_heap [example_owner ''uid-7'' (Some True)] [''sda'']"
  have g: "workqueue_Get c = (Str ''openebs/node1'', False)"
    by (simp add: c_def example_controller_def)
  have sp: "example_SplitMetaNamespaceKey ''openebs/node1'' = Inr (''openebs'', ''node1'')"
    by (simp add: example_SplitMetaNamespaceKey_def)
  have s1: "fst (syncHandler E1 c ''openebs/node1'' h1) = Some (Failure ''lsblk failed'')"
    by (simp add: syncHandler_def syncNode_def E1_def c_def h1_def example_env_def sp
        example_controller_def listDeviceNames_def split: prod.splits)
  have s2: "fst (syncHandler E2 c ''openebs/node1'' h2) = None"
    by (simp add: syncHandler_def syncNode_def E2_def c_def h2_def example_env_def sp
        example_controller_def listDeviceNames_def DeepCopy_def example_heap_def
        example_node_def example_owner_def isOwnerRefsUpdateRequired_def elems_def Let_def)
  obtain k1 evs1 h1' where r1: "processNextWorkItem E1 c h1 = (k1, evs1, h1')"
    by (metis surj_pair)
  obtain k2 evs2 h2' where r2: "processNextWorkItem E2 c h2 = (k2, evs2, h2')"
    by (metis surj_pair)
  from processNextWorkItem_error_containment[OF g, where E = E1 and h = h1 and key = "''openebs/node1''"] s1
  have c1: "k1 \<and> filter isQueueCall evs1 =
      [workqueue_AddRateLimited (Str ''openebs/node1''), workqueue_Done (Str ''openebs/node1'')]"
    unfolding r1 by simp
  from processNextWorkItem_error_containment[OF g, where E = E2 and h = h2 and key = "''openebs/node1''"] s2
  have c2: "k2 \<and> filter isQueueCall evs2 =
      [workqueue_Forget (Str ''openebs/node1''), workqueue_Done (Str ''openebs/node1'')]"
    unfolding r2 by simp
  from g s1 s2 c1 c2 show ?thesis
    unfolding Let_def c_def[symmetric] E1_def[symmetric] E2_def[symmetric]
      h1_def[symmetric] h2_def[symmetric] r1 r2 fst_conv snd_conv
    by blast
qed

text \<open>
  Claim C7. Malformed items are dropped without retry. A dequeued item that is not a
  string is forgotten, reported to \<^verbatim>\<open>runtime.HandleError\<close> and marked done, and
  nothing else happens: no requeue. A string key that the namespace/name split rejects
  makes \<^verbatim>\<open>syncHandler\<close> report the invalid key and return nil without touching
  anything; the worker then treats the item as a success: it is forgotten and marked
  done, never requeued.
\<close>

theorem malformed_items_dropped:
  "(workqueue_Get c = (NonString v, False) \<longrightarrow>
      processNextWorkItem E c h =
        (True,
         [workqueue_Forget (NonString v),
          runtime_HandleError (Errorf ''expected string in workqueue but got %#v'' []),
          workqueue_Done (NonString v)], h)) \<and>
   (SplitMetaNamespaceKey E key = Inl err \<longrightarrow>
      syncHandler E c key h =
        (None, [runtime_HandleError (Errorf ''invalid resource key: %s'' [])], h) \<and>
      (workqueue_Get c = (Str key, False) \<longrightarrow>
         processNextWorkItem E c h =
           (True,
            [runtime_HandleError (Errorf ''invalid resource key: %s'' []),
             workqueue_Forget (Str key),
             klog_Infof (''Successfully synced '%s'' @ [CHR 0x27]),
             workqueue_Done (Str key)], h)))"
  by (simp add: processNextWorkItem_def syncHandler_def)

text \<open>
  On the example: a number on the queue, and the key \<^verbatim>\<open>a/b/c\<close>, which has one slash
  too many.
\<close>

theorem malformed_items_dropped_witness:
  "(let c = example_controller (NonString 7, False); E = example_env (Inr [''sda''])
    in workqueue_Get c = (NonString 7, False) \<and>
       processNextWorkItem E c (example_heap [] []) =
         (True,
          [workqueue_Forget (NonString 7),
           runtime_HandleError (Errorf ''expected string in workqueue but got %#v'' []),
           workqueue_Done (NonString 7)], example_heap [] [])) \<and>
   (let c = example_controller (Str ''a/b/c'', False); E = example_env (Inr [''sda''])
    in SplitMetaNamespaceKey E ''a/b/c'' = Inl (Errorf ''unexpected key format: %q'' []) \<and>
       workqueue_Get c = (Str ''a/b/c'', False) \<and>
       syncHandler E c ''a/b/c'' (example_heap [] []) =
         (None, [runtime_HandleError (Errorf ''invalid resource key: %s'' [])], example_heap [] []) \<and>
       filter isQueueCall (fst (snd (processNextWorkItem E c (example_heap [] [])))) =
         [workqueue_Forget (Str ''a/b/c''), workqueue_Done (Str ''a/b/c'')])"
proof -
  define c1 where "c1 = example_controller (NonString 7, False)"
  define c2 where "c2 = example_controller (Str ''a/b/c'', False)"
  define E where "E = example_env (Inr [''sda''])"
  define h :: "string heap" where "h = example_heap [] []"
  have g1: "workqueue_Get c1 = (NonString 7, False)"
    by (simp add: c1_def example_controller_def)
  have g2: "workqueue_Get c2 = (Str ''a/b/c'', False)"
    by (simp add: c2_def example_controller_def)
  have sp: "SplitMetaNamespaceKey E ''a/b/c'' = Inl (Errorf ''unexpected key format: %q'' [])"
    by (simp add: E_def example_env_def example_SplitMetaNamespaceKey_def)
  note t = malformed_items_dropped
  note r1 = t[where c = c1 and v = 7 and E = E and h = h, THEN conjunct1, THEN mp, OF g1]
  note r2 = t[where c = c2 and key = "''a/b/c''" and E = E and h = h
      and err = "Errorf ''unexpected key format: %q'' []", THEN conjunct2, THEN mp, OF sp]
  note r3 = r2[THEN conjunct2, THEN mp, OF g2]
  have r4: "filter isQueueCall (fst (snd (processNextWorkItem E c2 h))) =
         [workqueue_Forget (Str ''a/b/c''), workqueue_Done (Str ''a/b/c'')]"
    unfolding r3 by simp
  from g1 g2 sp r1 r2[THEN conjunct1] r4 show ?thesis
    unfolding Let_def c1_def[symmetric] c2_def[symmetric] E_def[symmetric] h_def[symmetric]
    by blast
qed

text \<open>
  Claim C8. Atomicity of a failed pass. When the lookup fails with an error that is not
  not-found, \<^verbatim>\<open>syncNode\<close> returns that error with no event at all and the heap as it
  was. When the lookup does not fail so and the provider's enumeration fails,
  \<^verbatim>\<open>syncNode\<close> returns the provider's error, again with no event: no create or update
  call was made. And whatever happens, a pass makes at most one create or update call.
\<close>

theorem syncNode_failed_pass_atomic:
  "(NodeLister_Get c namespace name = (cachedNode, Some e) \<and> \<not> IsNotFound e \<longrightarrow>
      syncNode E c namespace name h = (Some e, [], h)) \<and>
   (NodeLister_Get c namespace name = (cachedNode, err) \<and>
    (case err of None \<Rightarrow> True | Some x \<Rightarrow> IsNotFound x) \<and> listDeviceNames E = Inl e' \<longrightarrow>
      fst (syncNode E c namespace name h) = Some e' \<and>
      fst (snd (syncNode E c namespace name h)) = []) \<and>
   length (filter isStoreWrite (fst (snd (syncNode E c namespace name h)))) \<le> 1"
proof (intro conjI impI)
  assume "NodeLister_Get c namespace name = (cachedNode, Some e) \<and> \<not> IsNotFound e"
  then show "syncNode E c namespace name h = (Some e, [], h)"
    using syncNode_lookup_error by blast
next
  assume a: "NodeLister_Get c namespace name = (cachedNode, err) \<and>
    (case err of None \<Rightarrow> True | Some x \<Rightarrow> IsNotFound x) \<and> listDeviceNames E = Inl e'"
  have "syncNode E c namespace name h = (Some e', [], h) \<or>
        (\<exists>p. syncNode E c namespace name h = (Some e', [], snd (DeepCopy p h)))"
  proof (cases cachedNode)
    case None
    with a syncNode_absent[of c namespace name err E h] show ?thesis by simp
  next
    case (Some p)
    with a syncNode_present_provider_error[of c namespace name p err E e' h]
    have "syncNode E c namespace name h = (Some e', [], snd (DeepCopy p h))" by simp
    then show ?thesis by blast
  qed
  then show "fst (syncNode E c namespace name h) = Some e'"
    and "fst (snd (syncNode E c namespace name h)) = []" by auto
next
  show "length (filter isStoreWrite (fst (snd (syncNode E c namespace name h)))) \<le> 1"
    by (cases rule: syncNode_cases[of c namespace name E h]) (auto split: sum.splits)
qed

text \<open>
  On the example: a lister that fails with a timeout, a provider that fails, and a pass
  that replaces the device list with one update call.
\<close>

theorem syncNode_failed_pass_atomic_witness:
  "(let c = (example_controller (Str ''openebs/node1'', False))
             \<lparr>NodeLister_Get := \<lambda>namespace name. (None, Some (Failure ''timeout''))\<rparr>
    in NodeLister_Get c ''openebs'' ''node1'' = (None, Some (Failure ''timeout'')) \<and>
       \<not> IsNotFound (Failure ''timeout'') \<and>
       syncNode (example_env (Inr [''sda''])) c ''openebs'' ''node1'' (example_heap [] []) =
         (Some (Failure ''timeout''), [], example_heap [] [])) \<and>
   (let c = example_controller (Str ''openebs/node1'', False);
        E = example_env (Inl (Failure ''lsblk failed''))
    in NodeLister_Get c ''openebs'' ''node1'' = (Some 0, None) \<and>
       listDeviceNames E = Inl (Failure ''lsblk failed'') \<and>
       fst (syncNode E c ''openebs'' ''node1'' (example_heap [] [])) = Some (Failure ''lsblk failed'') \<and>
       fst (snd (syncNode E c ''openebs'' ''node1'' (example_heap [] []))) = []) \<and>
   length (filter isStoreWrite
     (fst (snd (syncNode (example_env (Inr [''sda''])) (example_controller (Str ''openebs/node1'', False))
        ''openebs'' ''node1'' (example_heap [example_owner ''uid-7'' (Some True)] [''sdb''])))))
     \<le> 1"
proof -
  define c where "c = example_controller (Str ''openebs/node1'', False)"
  define c1 where "c1 = c\<lparr>NodeLister_Get := \<lambda>namespace name. (None, Some (Failure ''timeout''))\<rparr>"
  define E2 where "E2 = example_env (Inl (Failure ''lsblk failed''))"
  have h1: "NodeLister_Get c1 ''openebs'' ''node1'' = (None, Some (Failure ''timeout'')) \<and>
       \<not> IsNotFound (Failure ''timeout'')"
    by (simp add: c1_def)
  have h2: "NodeLister_Get c ''openebs'' ''node1'' = (Some 0, None) \<and>
       (case None of None \<Rightarrow> True | Some x \<Rightarrow> IsNotFound x) \<and>
       listDeviceNames E2 = Inl (Failure ''lsblk failed'')"
    by (simp add: c_def E2_def example_controller_def example_env_def listDeviceNames_def)
  note t1 = syncNode_failed_pass_atomic[where c = c1 and namespace = "''openebs''"
      and name = "''node1''" and cachedNode = None and e = "Failure ''timeout''"
      and E = "example_env (Inr [''sda''])" and h = "example_heap [] []",
      THEN conjunct1, rule_format, OF h1]
  note t2 = syncNode_failed_pass_atomic[where c = c and namespace = "''openebs''"
      and name = "''node1''" and cachedNode = "Some 0" and err = None
      and e' = "Failure ''lsblk failed''"
      and E = E2 and h = "example_heap [] []",
      THEN conjunct2, THEN conjunct1, rule_format, OF h2]
  note t3 = syncNode_failed_pass_atomic[where c = c and namespace = "''openebs''"
      and name = "''node1''" and E = "example_env (Inr [''sda''])"
      and h = "example_heap [example_owner ''uid-7'' (Some True)] [''sdb'']",
      THEN conjunct2, THEN conjunct2]
  show ?thesis
    unfolding Let_def c_def[symmetric] c1_def[symmetric] E2_def[symmetric]
    using h1 h2 t1 t2 t3 by simp
qed

text \<open>
  Claim C9. Tombstone recovery. A delete notification whose payload is a tombstone that
  holds a DeviceNode is handled exactly as the notification with that DeviceNode as
  payload: the delete is logged and the node goes to \<^verbatim>\<open>enqueueNode\<close>. Any payload that
  is neither a DeviceNode nor a tombstone holding one is reported as an error and
  nothing else happens; in particular no call is made on the queue.
\<close>

theorem deleteNode_tombstone_recovery:
  "deleteNode E (DeletedFinalStateUnknown key (DeviceNodeObj node)) =
     deleteNode E (DeviceNodeObj node) \<and>
   deleteNode E (DeviceNodeObj node) =
     klog_Infof ''Got delete event for node %s/%s'' # enqueueNode E node \<and>
   ((\<forall>n. obj \<noteq> DeviceNodeObj n) \<and> (\<forall>k n. obj \<noteq> DeletedFinalStateUnknown k (DeviceNodeObj n)) \<longrightarrow>
      (\<exists>e. deleteNode E obj = [runtime_HandleError e]) \<and>
      filter isQueueCall (deleteNode E obj) = [])"
  by (auto simp: deleteNode_def split: obj.splits)

text \<open>
  On the example: the tombstone of the local node's record leads to its key being added
  to the queue, and a tombstone holding something else is rejected.
\<close>

theorem deleteNode_tombstone_recovery_witness:
  "(let E = example_env (Inr []); node = example_node [] [] :: string DeviceNode_val
    in deleteNode E (DeletedFinalStateUnknown ''openebs/node1'' (DeviceNodeObj node)) =
         [klog_Infof ''Got delete event for node %s/%s'', workqueue_Add (Str ''openebs/node1'')]) \<and>
   (let E = example_env (Inr []);
        obj = DeletedFinalStateUnknown ''openebs/node1'' (OtherObj 0) :: string DeviceNode_val obj
    in (\<exists>e. deleteNode E obj = [runtime_HandleError e]) \<and>
       filter isQueueCall (deleteNode E obj) = [])"
proof -
  define E :: "string env" where "E = example_env (Inr [])"
  define node :: "string DeviceNode_val" where "node = example_node [] []"
  define obj :: "string DeviceNode_val obj" where
    "obj = DeletedFinalStateUnknown ''openebs/node1'' (OtherObj 0)"
  have enq: "enqueueNode E node = [workqueue_Add (Str ''openebs/node1'')]"
    by (simp add: enqueueNode_def E_def node_def example_env_def example_node_def
        example_MetaNamespaceKeyFunc_def)
  have o: "(\<forall>n. obj \<noteq> DeviceNodeObj n) \<and> (\<forall>k n. obj \<noteq> DeletedFinalStateUnknown k (DeviceNodeObj n))"
    by (simp add: obj_def)
  note t = deleteNode_tombstone_recovery
  from t[where E = E and key = "''openebs/node1''" and node = node] enq
  have c1: "deleteNode E (DeletedFinalStateUnknown ''openebs/node1'' (DeviceNodeObj node)) =
         [klog_Infof ''Got delete event for node %s/%s'', workqueue_Add (Str ''openebs/node1'')]"
    by simp
  note c2 = t[where E = E and obj = obj, THEN conjunct2, THEN conjunct2, THEN mp, OF o]
  from c1 c2 show ?thesis
    unfolding Let_def E_def[symmetric] node_def[symmetric] obj_def[symmetric]
    by blast
qed

text \<open>
  Claim C10. Frame of an update. In every pass, a record submitted in an update call is
  submitted in the key's namespace and is the cached record the lister returned with at
  most its owner references and its devices replaced: namespace, name, resource version
  and creation timestamp are the cached record's. The pass writes only to what it
  allocated itself: every struct and every backing array that existed before the pass is
  unchanged after it, so a cached record that lies in the heap reads the same before and
  after.
\<close>

theorem syncNode_update_frame:
  "(case syncNode E c namespace name h of (r, evs, h') \<Rightarrow>
     (\<forall>ns n. Kubeclient_Update ns n \<in> set evs \<longrightarrow>
        (\<exists>p. fst (NodeLister_Get c namespace name) = Some p \<and> ns = namespace \<and>
             n = (snapshot h p)\<lparr>OwnerReferences := OwnerReferences n, Devices := Devices n\<rparr> \<and>
             Namespace n = Namespace (snapshot h p) \<and> Name n = Name (snapshot h p) \<and>
             ResourceVersion n = ResourceVersion (snapshot h p) \<and>
             CreationTimestamp n = CreationTimestamp (snapshot h p))) \<and>
     (\<forall>a<brk h. nodes h' a = nodes h a \<and> arrays h' a = arrays h a) \<and>
     (\<forall>p. p < brk h \<and> (\<forall>a. OwnerReferences (nodes h p) = Some a \<longrightarrow> a < brk h) \<longrightarrow>
          snapshot h' p = snapshot h p))"
proof -
  obtain r evs h' where res: "syncNode E c namespace name h = (r, evs, h')"
    by (metis surj_pair)
  have frame: "\<forall>a<brk h. nodes h' a = nodes h a \<and> arrays h' a = arrays h a"
  proof (cases rule: syncNode_cases[of c namespace name E h])
    case (unchanged p err devices q h1)
    then show ?thesis using res DeepCopy_fresh[of p h q h1] by simp
  next
    case (updated p err devices q h1 ownerRefs req h2 h3 differ h4 r' tl)
    from working_copy(6)[OF updated(4,5,6,8)] updated(11) res show ?thesis by simp
  qed (use res in auto)
  have upd: "\<exists>p. fst (NodeLister_Get c namespace name) = Some p \<and> ns = namespace \<and>
             n = (snapshot h p)\<lparr>OwnerReferences := OwnerReferences n, Devices := Devices n\<rparr> \<and>
             Namespace n = Namespace (snapshot h p) \<and> Name n = Name (snapshot h p) \<and>
             ResourceVersion n = ResourceVersion (snapshot h p) \<and>
             CreationTimestamp n = CreationTimestamp (snapshot h p)"
    if "Kubeclient_Update ns n \<in> set evs" for ns n
  proof (cases rule: syncNode_cases[of c namespace name E h])
    case (updated p err devices q h1 ownerRefs req h2 h3 differ h4 r' tl)
    have tl: "Kubeclient_Update ns n \<notin> set tl"
      using updated(10) by (auto split: sum.splits)
    from that updated(11) res tl have n: "ns = namespace" "n = snapshot h4 q"
      by (auto split: if_splits)
    note wc = working_copy(1-4)[OF updated(4,5,6,8)]
    have f: "Namespace n = Namespace (snapshot h p)" "Name n = Name (snapshot h p)"
      "ResourceVersion n = ResourceVersion (snapshot h p)"
      "CreationTimestamp n = CreationTimestamp (snapshot h p)"
      using wc unfolding n by (simp_all add: snapshot_def)
    then have "n = (snapshot h p)\<lparr>OwnerReferences := OwnerReferences n, Devices := Devices n\<rparr>"
      by (intro DeviceNode.equality) simp_all
    with f n(1) updated(1) show ?thesis by auto
  next
    case (created err devices node r' tl)
    then show ?thesis using that res by (auto split: sum.splits)
  qed (use that res in auto)
  have cached: "snapshot h' p = snapshot h p"
    if "p < brk h \<and> (\<forall>a. OwnerReferences (nodes h p) = Some a \<longrightarrow> a < brk h)" for p
    using frame that by (auto simp: snapshot_def elems_def split: option.splits)
  show ?thesis
    unfolding res using frame upd cached by simp
qed

text \<open>
  On the example: the cached record lacks the controller flag and lists an old device.
  The pass submits one update, with the fields of the cached record (resource version
  41 among them), the flag set and the new device list; the cached record itself still
  reads as before.
\<close>

theorem syncNode_update_frame_witness:
  "(let c = example_controller (Str ''openebs/node1'', False);
        E = example_env (Inr [''sda'', ''sdc'']);
        h = example_heap [example_owner ''uid-7'' (Some False)] [''sda'', ''sdb'']
    in (0::nat) < brk h \<and> OwnerReferences (nodes h 0) = Some 1 \<and> (1::nat) < brk h \<and>
       fst (NodeLister_Get c ''openebs'' ''node1'') = Some 0 \<and>
       Kubeclient_Update ''openebs''
         ((example_node [example_owner ''uid-7'' (Some True)] [''sda'', ''sdc''])
            :: string DeviceNode_val)
         \<in> set (fst (snd (syncNode E c ''openebs'' ''node1'' h))) \<and>
       ResourceVersion (snapshot h 0) = ''41'' \<and>
       snapshot (snd (snd (syncNode E c ''openebs'' ''node1'' h))) 0 =
         example_node [example_owner ''uid-7'' (Some False)] [''sda'', ''sdb''])"
proof -
  define c where "c = example_controller (Str ''openebs/node1'', False)"
  define E where "E = example_env (Inr [''sda'', ''sdc''])"
  define h where "h = example_heap [example_owner ''uid-7'' (Some False)] [''sda'', ''sdb'']"
  obtain r evs h' where res: "syncNode E c ''openebs'' ''node1'' h = (r, evs, h')"
    by (metis surj_pair)
  have a: "(0::nat) < brk h \<and> OwnerReferences (nodes h 0) = Some 1 \<and> (1::nat) < brk h"
    by (simp add: h_def example_heap_def example_node_def)
  have g: "fst (NodeLister_Get c ''openebs'' ''node1'') = Some 0"
    by (simp add: c_def example_controller_def)
  have s0: "snapshot h 0 = example_node [example_owner ''uid-7'' (Some False)] [''sda'', ''sdb'']"
    by (simp add: h_def snapshot_def example_heap_def example_node_def elems_def)
  have run: "Kubeclient_Update ''openebs''
         ((example_node [example_owner ''uid-7'' (Some True)] [''sda'', ''sdc''])
            :: string DeviceNode_val) \<in> set evs"
    using res
    by (simp add: syncNode_def c_def E_def h_def example_controller_def example_env_def
        example_heap_def example_node_def example_owner_def listDeviceNames_def DeepCopy_def
        isOwnerRefsUpdateRequired_def elems_def set_elem_def
        set_OwnerReferences_def set_Devices_def snapshot_def Let_def)
      auto
  from syncNode_update_frame[where E = E and c = c and namespace = "''openebs''"
      and name = "''node1''" and h = h]
  have "snapshot h' 0 = snapshot h 0"
    unfolding res using a by auto
  with a g s0 run show ?thesis
    unfolding Let_def c_def[symmetric] E_def[symmetric] h_def[symmetric] res
    by (simp add: example_node_def)
qed

end
